theory Spec2Isabelle
  imports Complex_Main "HOL-Library.Word" "HOL-Library.Monad_Syntax"
begin

section \<open>The io submodule of the Python binding (src/Python/io/io.cpp)\<close>

text \<open>
  The file registers twenty functions in the submodule \<^verbatim>\<open>io\<close>: for each of ten kinds of
  entity a \<^verbatim>\<open>read_<kind>\<close> and a \<^verbatim>\<open>write_<kind>\<close>. Each is a C++ lambda that calls a
  native routine \<^verbatim>\<open>io::Read...\<close> or \<^verbatim>\<open>io::Write...\<close>, registered with the names and the
  defaults of its arguments. The model has three layers:
  \<^item> the lambdas, one typed definition each, over the native routines taken as parameters
    (their headers are included, their code is not in this file);
  \<^item> the registration table: the Python name, the argument names and the defaults;
  \<^item> the call of a registered function from Python: arguments are bound by position, by
    keyword and by default, cast to the lambda's parameter types, and the lambda's result
    is converted back (bool to \<^verbatim>\<open>True\<close>/\<^verbatim>\<open>False\<close>, void to \<^verbatim>\<open>None\<close>, an entity to a new
    Python object).
\<close>

subsection \<open>Entities\<close>

text \<open>
  Modelled from the spec: the entity classes (\<^verbatim>\<open>geometry::Image\<close>, \<^verbatim>\<open>geometry::PointCloud\<close>,
  ...) are declared in headers that are not part of the sources. Their attributes are
  the essential attributes of the data model; a default-constructed entity has no
  elements and zero scalars. A coordinate is a floating-point number: finite, NaN or
  infinite.
\<close>

type_synonym byte = "8 word"

datatype scalar = Finite real | NaN | PosInf | NegInf

type_synonym vec3 = "scalar \<times> scalar \<times> scalar"

datatype kind =
    Image | LineSet | PointCloud | TriangleMesh | VoxelGrid
  | PinholeCameraIntrinsic | PinholeCameraParameters | PinholeCameraTrajectory
  | Feature | PoseGraph

record image =
  img_width :: nat
  img_height :: nat
  img_channels :: nat
  img_bytes_per_channel :: nat
  img_buffer :: "byte list"

record line_set =
  ls_vertices :: "vec3 list"
  ls_lines :: "(nat \<times> nat) list"

record point_cloud =
  points :: "vec3 list"
  normals :: "vec3 list"
  colors :: "vec3 list"

record triangle_mesh =
  vertices :: "vec3 list"
  triangles :: "(nat \<times> nat \<times> nat) list"
  vertex_normals :: "vec3 list"
  vertex_colors :: "vec3 list"

record voxel_grid =
  voxel_size :: scalar
  origin :: vec3
  voxels :: "((int \<times> int \<times> int) \<times> vec3 option) list"

record pinhole_camera_intrinsic =
  focal_length :: "scalar \<times> scalar"
  principal_point :: "scalar \<times> scalar"
  cam_width :: int
  cam_height :: int

record pinhole_camera_parameters =
  cam_intrinsic :: pinhole_camera_intrinsic
  cam_extrinsic :: "scalar list"

record pinhole_camera_trajectory =
  frames :: "pinhole_camera_parameters list"

record feature =
  descriptors :: "scalar list list"

record pose_graph =
  nodes :: "scalar list list"
  edges :: "(nat \<times> nat \<times> scalar list \<times> scalar list \<times> bool) list"

datatype entity =
    EImage image
  | ELineSet line_set
  | EPointCloud point_cloud
  | ETriangleMesh triangle_mesh
  | EVoxelGrid voxel_grid
  | EIntrinsic pinhole_camera_intrinsic
  | EParameters pinhole_camera_parameters
  | ETrajectory pinhole_camera_trajectory
  | EFeature feature
  | EPoseGraph pose_graph

fun kind_of :: "entity \<Rightarrow> kind" where
  "kind_of (EImage _) = Image"
| "kind_of (ELineSet _) = LineSet"
| "kind_of (EPointCloud _) = PointCloud"
| "kind_of (ETriangleMesh _) = TriangleMesh"
| "kind_of (EVoxelGrid _) = VoxelGrid"
| "kind_of (EIntrinsic _) = PinholeCameraIntrinsic"
| "kind_of (EParameters _) = PinholeCameraParameters"
| "kind_of (ETrajectory _) = PinholeCameraTrajectory"
| "kind_of (EFeature _) = Feature"
| "kind_of (EPoseGraph _) = PoseGraph"

text \<open>The default constructors: what \<^verbatim>\<open>geometry::Image image;\<close> and its siblings create.\<close>

definition new_Image :: image where
  "new_Image = \<lparr>img_width = 0, img_height = 0, img_channels = 0,
                 img_bytes_per_channel = 0, img_buffer = []\<rparr>"

definition new_LineSet :: line_set where
  "new_LineSet = \<lparr>ls_vertices = [], ls_lines = []\<rparr>"

definition new_PointCloud :: point_cloud where
  "new_PointCloud = \<lparr>points = [], normals = [], colors = []\<rparr>"

definition new_TriangleMesh :: triangle_mesh where
  "new_TriangleMesh = \<lparr>vertices = [], triangles = [], vertex_normals = [], vertex_colors = []\<rparr>"

definition new_VoxelGrid :: voxel_grid where
  "new_VoxelGrid = \<lparr>voxel_size = Finite 0, origin = (Finite 0, Finite 0, Finite 0), voxels = []\<rparr>"

definition new_PinholeCameraIntrinsic :: pinhole_camera_intrinsic where
  "new_PinholeCameraIntrinsic =
     \<lparr>focal_length = (Finite 0, Finite 0), principal_point = (Finite 0, Finite 0),
      cam_width = 0, cam_height = 0\<rparr>"

definition new_PinholeCameraParameters :: pinhole_camera_parameters where
  "new_PinholeCameraParameters = \<lparr>cam_intrinsic = new_PinholeCameraIntrinsic, cam_extrinsic = []\<rparr>"

definition new_PinholeCameraTrajectory :: pinhole_camera_trajectory where
  "new_PinholeCameraTrajectory = \<lparr>frames = []\<rparr>"

definition new_Feature :: feature where
  "new_Feature = \<lparr>descriptors = []\<rparr>"

definition new_PoseGraph :: pose_graph where
  "new_PoseGraph = \<lparr>nodes = [], edges = []\<rparr>"

fun new_entity :: "kind \<Rightarrow> entity" where
  "new_entity Image = EImage new_Image"
| "new_entity LineSet = ELineSet new_LineSet"
| "new_entity PointCloud = EPointCloud new_PointCloud"
| "new_entity TriangleMesh = ETriangleMesh new_TriangleMesh"
| "new_entity VoxelGrid = EVoxelGrid new_VoxelGrid"
| "new_entity PinholeCameraIntrinsic = EIntrinsic new_PinholeCameraIntrinsic"
| "new_entity PinholeCameraParameters = EParameters new_PinholeCameraParameters"
| "new_entity PinholeCameraTrajectory = ETrajectory new_PinholeCameraTrajectory"
| "new_entity Feature = EFeature new_Feature"
| "new_entity PoseGraph = EPoseGraph new_PoseGraph"

subsection \<open>The native routines\<close>

text \<open>
  The file system is a map from paths to contents. A native reader takes the file
  system, the file name and the entity to fill (a non-const reference: the filled entity
  is returned beside the flag) and the options the lambda passes on. A native writer
  takes the entity as a const reference, so it returns the flag and the new file system
  only. \<^verbatim>\<open>io::ReadIJsonConvertible\<close> and \<^verbatim>\<open>io::WriteIJsonConvertible\<close> are called at two
  classes, one field each. The routines are parameters of everything below.
\<close>

type_synonym files = "string \<rightharpoonup> byte list"

record native_readers =
  ReadImage :: "files \<Rightarrow> string \<Rightarrow> image \<Rightarrow> bool \<times> image"
  ReadLineSet :: "files \<Rightarrow> string \<Rightarrow> line_set \<Rightarrow> string \<Rightarrow> bool \<times> line_set"
  ReadPointCloud ::
    "files \<Rightarrow> string \<Rightarrow> point_cloud \<Rightarrow> string \<Rightarrow> bool \<Rightarrow> bool \<Rightarrow> bool \<times> point_cloud"
  ReadTriangleMesh :: "files \<Rightarrow> string \<Rightarrow> triangle_mesh \<Rightarrow> bool \<times> triangle_mesh"
  ReadVoxelGrid :: "files \<Rightarrow> string \<Rightarrow> voxel_grid \<Rightarrow> string \<Rightarrow> bool \<times> voxel_grid"
  ReadIJsonConvertible_Intrinsic ::
    "files \<Rightarrow> string \<Rightarrow> pinhole_camera_intrinsic \<Rightarrow> bool \<times> pinhole_camera_intrinsic"
  ReadIJsonConvertible_Parameters ::
    "files \<Rightarrow> string \<Rightarrow> pinhole_camera_parameters \<Rightarrow> bool \<times> pinhole_camera_parameters"
  ReadPinholeCameraTrajectory ::
    "files \<Rightarrow> string \<Rightarrow> pinhole_camera_trajectory \<Rightarrow> bool \<times> pinhole_camera_trajectory"
  ReadFeature :: "files \<Rightarrow> string \<Rightarrow> feature \<Rightarrow> bool \<times> feature"
  ReadPoseGraph :: "files \<Rightarrow> string \<Rightarrow> pose_graph \<Rightarrow> bool \<times> pose_graph"

record native_writers =
  WriteImage :: "files \<Rightarrow> string \<Rightarrow> image \<Rightarrow> int \<Rightarrow> bool \<times> files"
  WriteLineSet :: "files \<Rightarrow> string \<Rightarrow> line_set \<Rightarrow> bool \<Rightarrow> bool \<Rightarrow> bool \<times> files"
  WritePointCloud :: "files \<Rightarrow> string \<Rightarrow> point_cloud \<Rightarrow> bool \<Rightarrow> bool \<Rightarrow> bool \<times> files"
  WriteTriangleMesh ::
    "files \<Rightarrow> string \<Rightarrow> triangle_mesh \<Rightarrow> bool \<Rightarrow> bool \<Rightarrow> bool \<Rightarrow> bool \<Rightarrow> bool \<times> files"
  WriteVoxelGrid :: "files \<Rightarrow> string \<Rightarrow> voxel_grid \<Rightarrow> bool \<Rightarrow> bool \<Rightarrow> bool \<times> files"
  WriteIJsonConvertible_Intrinsic ::
    "files \<Rightarrow> string \<Rightarrow> pinhole_camera_intrinsic \<Rightarrow> bool \<times> files"
  WriteIJsonConvertible_Parameters ::
    "files \<Rightarrow> string \<Rightarrow> pinhole_camera_parameters \<Rightarrow> bool \<times> files"
  WritePinholeCameraTrajectory ::
    "files \<Rightarrow> string \<Rightarrow> pinhole_camera_trajectory \<Rightarrow> bool \<times> files"
  WriteFeature :: "files \<Rightarrow> string \<Rightarrow> feature \<Rightarrow> bool \<times> files"
  WritePoseGraph :: "files \<Rightarrow> string \<Rightarrow> pose_graph \<Rightarrow> bool \<times> files"

subsection \<open>The lambdas\<close>

text \<open>
  A read lambda declares a default-constructed entity, hands it to the native reader,
  drops the flag the reader returns and returns the entity.
\<close>

definition read_image :: "native_readers \<Rightarrow> files \<Rightarrow> string \<Rightarrow> image" where
  "read_image R fs filename =
     (let img = new_Image;
          (ok, img) = ReadImage R fs filename img
      in img)"

definition read_line_set :: "native_readers \<Rightarrow> files \<Rightarrow> string \<Rightarrow> string \<Rightarrow> line_set" where
  "read_line_set R fs filename format =
     (let line_set = new_LineSet;
          (ok, line_set) = ReadLineSet R fs filename line_set format
      in line_set)"

definition read_point_cloud ::
  "native_readers \<Rightarrow> files \<Rightarrow> string \<Rightarrow> string \<Rightarrow> bool \<Rightarrow> bool \<Rightarrow> point_cloud" where
  "read_point_cloud R fs filename format remove_nan_points remove_infinite_points =
     (let pcd = new_PointCloud;
          (ok, pcd) = ReadPointCloud R fs filename pcd format remove_nan_points
                        remove_infinite_points
      in pcd)"

definition read_triangle_mesh :: "native_readers \<Rightarrow> files \<Rightarrow> string \<Rightarrow> triangle_mesh" where
  "read_triangle_mesh R fs filename =
     (let mesh = new_TriangleMesh;
          (ok, mesh) = ReadTriangleMesh R fs filename mesh
      in mesh)"

definition read_voxel_grid :: "native_readers \<Rightarrow> files \<Rightarrow> string \<Rightarrow> string \<Rightarrow> voxel_grid" where
  "read_voxel_grid R fs filename format =
     (let voxel_grid = new_VoxelGrid;
          (ok, voxel_grid) = ReadVoxelGrid R fs filename voxel_grid format
      in voxel_grid)"

definition read_pinhole_camera_intrinsic ::
  "native_readers \<Rightarrow> files \<Rightarrow> string \<Rightarrow> pinhole_camera_intrinsic" where
  "read_pinhole_camera_intrinsic R fs filename =
     (let intrinsic = new_PinholeCameraIntrinsic;
          (ok, intrinsic) = ReadIJsonConvertible_Intrinsic R fs filename intrinsic
      in intrinsic)"

definition read_pinhole_camera_parameters ::
  "native_readers \<Rightarrow> files \<Rightarrow> string \<Rightarrow> pinhole_camera_parameters" where
  "read_pinhole_camera_parameters R fs filename =
     (let parameters = new_PinholeCameraParameters;
          (ok, parameters) = ReadIJsonConvertible_Parameters R fs filename parameters
      in parameters)"

definition read_pinhole_camera_trajectory ::
  "native_readers \<Rightarrow> files \<Rightarrow> string \<Rightarrow> pinhole_camera_trajectory" where
  "read_pinhole_camera_trajectory R fs filename =
     (let trajectory = new_PinholeCameraTrajectory;
          (ok, trajectory) = ReadPinholeCameraTrajectory R fs filename trajectory
      in trajectory)"

definition read_feature :: "native_readers \<Rightarrow> files \<Rightarrow> string \<Rightarrow> feature" where
  "read_feature R fs filename =
     (let feature = new_Feature;
          (ok, feature) = ReadFeature R fs filename feature
      in feature)"

definition read_pose_graph :: "native_readers \<Rightarrow> files \<Rightarrow> string \<Rightarrow> pose_graph" where
  "read_pose_graph R fs filename =
     (let pose_graph = new_PoseGraph;
          (ok, pose_graph) = ReadPoseGraph R fs filename pose_graph
      in pose_graph)"

text \<open>
  A write lambda returns what the native writer returns; the write of a pose graph has
  no \<^verbatim>\<open>return\<close>: it calls the writer and returns nothing.
\<close>

definition write_image ::
  "native_writers \<Rightarrow> files \<Rightarrow> string \<Rightarrow> image \<Rightarrow> int \<Rightarrow> bool \<times> files" where
  "write_image W fs filename img quality = WriteImage W fs filename img quality"

definition write_line_set ::
  "native_writers \<Rightarrow> files \<Rightarrow> string \<Rightarrow> line_set \<Rightarrow> bool \<Rightarrow> bool \<Rightarrow> bool \<times> files" where
  "write_line_set W fs filename line_set write_ascii compressed =
     WriteLineSet W fs filename line_set write_ascii compressed"

definition write_point_cloud ::
  "native_writers \<Rightarrow> files \<Rightarrow> string \<Rightarrow> point_cloud \<Rightarrow> bool \<Rightarrow> bool \<Rightarrow> bool \<times> files" where
  "write_point_cloud W fs filename pointcloud write_ascii compressed =
     WritePointCloud W fs filename pointcloud write_ascii compressed"

definition write_triangle_mesh ::
  "native_writers \<Rightarrow> files \<Rightarrow> string \<Rightarrow> triangle_mesh \<Rightarrow> bool \<Rightarrow> bool \<Rightarrow> bool \<Rightarrow> bool
     \<Rightarrow> bool \<times> files" where
  "write_triangle_mesh W fs filename mesh write_ascii compressed write_vertex_normals
       write_vertex_colors =
     WriteTriangleMesh W fs filename mesh write_ascii compressed write_vertex_normals
       write_vertex_colors"

definition write_voxel_grid ::
  "native_writers \<Rightarrow> files \<Rightarrow> string \<Rightarrow> voxel_grid \<Rightarrow> bool \<Rightarrow> bool \<Rightarrow> bool \<times> files" where
  "write_voxel_grid W fs filename voxel_grid write_ascii compressed =
     WriteVoxelGrid W fs filename voxel_grid write_ascii compressed"

definition write_pinhole_camera_intrinsic ::
  "native_writers \<Rightarrow> files \<Rightarrow> string \<Rightarrow> pinhole_camera_intrinsic \<Rightarrow> bool \<times> files" where
  "write_pinhole_camera_intrinsic W fs filename intrinsic =
     WriteIJsonConvertible_Intrinsic W fs filename intrinsic"

definition write_pinhole_camera_parameters ::
  "native_writers \<Rightarrow> files \<Rightarrow> string \<Rightarrow> pinhole_camera_parameters \<Rightarrow> bool \<times> files" where
  "write_pinhole_camera_parameters W fs filename parameters =
     WriteIJsonConvertible_Parameters W fs filename parameters"

definition write_pinhole_camera_trajectory ::
  "native_writers \<Rightarrow> files \<Rightarrow> string \<Rightarrow> pinhole_camera_trajectory \<Rightarrow> bool \<times> files" where
  "write_pinhole_camera_trajectory W fs filename trajectory =
     WritePinholeCameraTrajectory W fs filename trajectory"

definition write_feature ::
  "native_writers \<Rightarrow> files \<Rightarrow> string \<Rightarrow> feature \<Rightarrow> bool \<times> files" where
  "write_feature W fs filename feature = WriteFeature W fs filename feature"

definition write_pose_graph ::
  "native_writers \<Rightarrow> files \<Rightarrow> string \<Rightarrow> pose_graph \<Rightarrow> unit \<times> files" where
  "write_pose_graph W fs filename pose_graph =
     (let (ok, fs') = WritePoseGraph W fs filename pose_graph in ((), fs'))"

subsection \<open>The registration table\<close>

text \<open>
  A Python value an argument or a result can be: \<^verbatim>\<open>None\<close>, a bool, an int, a str, or a
  reference to an entity object on the Python heap.
\<close>

datatype pyval = PNone | PBool bool | PInt int | PStr string | PRef nat

datatype operation = Read kind | Write kind

text \<open>The first argument of each \<^verbatim>\<open>m_io.def\<close>: the name the function is registered under.\<close>

fun py_name :: "operation \<Rightarrow> string" where
  "py_name (Read Image) = ''read_image''"
| "py_name (Write Image) = ''write_image''"
| "py_name (Read LineSet) = ''read_line_set''"
| "py_name (Write LineSet) = ''write_line_set''"
| "py_name (Read PointCloud) = ''read_point_cloud''"
| "py_name (Write PointCloud) = ''write_point_cloud''"
| "py_name (Read TriangleMesh) = ''read_triangle_mesh''"
| "py_name (Write TriangleMesh) = ''write_triangle_mesh''"
| "py_name (Read VoxelGrid) = ''read_voxel_grid''"
| "py_name (Write VoxelGrid) = ''write_voxel_grid''"
| "py_name (Read PinholeCameraIntrinsic) = ''read_pinhole_camera_intrinsic''"
| "py_name (Write PinholeCameraIntrinsic) = ''write_pinhole_camera_intrinsic''"
| "py_name (Read PinholeCameraParameters) = ''read_pinhole_camera_parameters''"
| "py_name (Write PinholeCameraParameters) = ''write_pinhole_camera_parameters''"
| "py_name (Read PinholeCameraTrajectory) = ''read_pinhole_camera_trajectory''"
| "py_name (Write PinholeCameraTrajectory) = ''write_pinhole_camera_trajectory''"
| "py_name (Read Feature) = ''read_feature''"
| "py_name (Write Feature) = ''write_feature''"
| "py_name (Read PoseGraph) = ''read_pose_graph''"
| "py_name (Write PoseGraph) = ''write_pose_graph''"

text \<open>
  The trailing arguments of each \<^verbatim>\<open>m_io.def\<close>: \<^verbatim>\<open>"name"_a\<close> declares an argument without a
  default, \<^verbatim>\<open>"name"_a = v\<close> one with the default \<open>v\<close>.
\<close>

fun params :: "operation \<Rightarrow> (string \<times> pyval option) list" where
  "params (Read Image) = [(''filename'', None)]"
| "params (Write Image) =
     [(''filename'', None), (''image'', None), (''quality'', Some (PInt 90))]"
| "params (Read LineSet) = [(''filename'', None), (''format'', Some (PStr ''auto''))]"
| "params (Write LineSet) =
     [(''filename'', None), (''line_set'', None),
      (''write_ascii'', Some (PBool False)), (''compressed'', Some (PBool False))]"
| "params (Read PointCloud) =
     [(''filename'', None), (''format'', Some (PStr ''auto'')),
      (''remove_nan_points'', Some (PBool True)),
      (''remove_infinite_points'', Some (PBool True))]"
| "params (Write PointCloud) =
     [(''filename'', None), (''pointcloud'', None),
      (''write_ascii'', Some (PBool False)), (''compressed'', Some (PBool False))]"
| "params (Read TriangleMesh) = [(''filename'', None)]"
| "params (Write TriangleMesh) =
     [(''filename'', None), (''mesh'', None),
      (''write_ascii'', Some (PBool False)), (''compressed'', Some (PBool False)),
      (''write_vertex_normals'', Some (PBool True)),
      (''write_vertex_colors'', Some (PBool True))]"
| "params (Read VoxelGrid) = [(''filename'', None), (''format'', Some (PStr ''auto''))]"
| "params (Write VoxelGrid) =
     [(''filename'', None), (''voxel_grid'', None),
      (''write_ascii'', Some (PBool False)), (''compressed'', Some (PBool False))]"
| "params (Read PinholeCameraIntrinsic) = [(''filename'', None)]"
| "params (Write PinholeCameraIntrinsic) = [(''filename'', None), (''intrinsic'', None)]"
| "params (Read PinholeCameraParameters) = [(''filename'', None)]"
| "params (Write PinholeCameraParameters) = [(''filename'', None), (''parameters'', None)]"
| "params (Read PinholeCameraTrajectory) = [(''filename'', None)]"
| "params (Write PinholeCameraTrajectory) = [(''filename'', None), (''trajectory'', None)]"
| "params (Read Feature) = [(''filename'', None)]"
| "params (Write Feature) = [(''filename'', None), (''feature'', None)]"
| "params (Read PoseGraph) = [(''filename'', None)]"
| "params (Write PoseGraph) = [(''filename'', None), (''pose_graph'', None)]"

subsection \<open>Calling a registered function\<close>

text \<open>
  Argument binding, as the binding library does it for a function without \<^verbatim>\<open>*args\<close> and
  \<^verbatim>\<open>**kwargs\<close>: the positional arguments fill the first parameters; each parameter left
  takes the keyword argument of its name, else its default; a parameter with neither, a
  positional argument too many, or a keyword argument that is left over (an unknown name,
  or the name of a parameter already given by position) fails the call.
\<close>

fun bind_args ::
  "(string \<times> pyval option) list \<Rightarrow> pyval list \<Rightarrow> (string \<times> pyval) list \<Rightarrow> pyval list option"
where
  "bind_args [] [] kwargs = (if kwargs = [] then Some [] else None)"
| "bind_args [] (a # args) kwargs = None"
| "bind_args ((name, dflt) # ps) (a # args) kwargs =
     map_option ((#) a) (bind_args ps args kwargs)"
| "bind_args ((name, dflt) # ps) [] kwargs =
     (case map_of kwargs name of
        Some v \<Rightarrow> map_option ((#) v) (bind_args ps [] (filter (\<lambda>kv. fst kv \<noteq> name) kwargs))
      | None \<Rightarrow>
          (case dflt of
             Some v \<Rightarrow> map_option ((#) v) (bind_args ps [] kwargs)
           | None \<Rightarrow> None))"

text \<open>
  The state a call runs in: the file system and the Python heap, a list of entity
  objects addressed by position. The outcome of a call is a returned value or a raised
  exception; a call whose arguments do not fit raises \<^verbatim>\<open>TypeError\<close>.
\<close>

record world =
  files :: files
  heap :: "entity list"

datatype py_exception = TypeError

datatype outcome = Return pyval | Raise py_exception

text \<open>
  Casts from a Python value to a parameter type. The values are taken of the exact
  Python type: a str for \<^verbatim>\<open>std::string\<close>, a bool for \<^verbatim>\<open>bool\<close>, an int within the range of
  a 32-bit \<^verbatim>\<open>int\<close>, and for an entity class a reference to a heap object of that class.
\<close>

fun as_str :: "pyval \<Rightarrow> string option" where
  "as_str (PStr s) = Some s"
| "as_str _ = None"

fun as_bool :: "pyval \<Rightarrow> bool option" where
  "as_bool (PBool b) = Some b"
| "as_bool _ = None"

fun as_int :: "pyval \<Rightarrow> int option" where
  "as_int (PInt n) = (if - (2 ^ 31) \<le> n \<and> n < 2 ^ 31 then Some n else None)"
| "as_int _ = None"

fun deref :: "world \<Rightarrow> pyval \<Rightarrow> entity option" where
  "deref w (PRef r) = (if r < length (heap w) then Some (heap w ! r) else None)"
| "deref w _ = None"

definition as_Image :: "world \<Rightarrow> pyval \<Rightarrow> image option" where
  "as_Image w v = (case deref w v of Some (EImage x) \<Rightarrow> Some x | _ \<Rightarrow> None)"

definition as_LineSet :: "world \<Rightarrow> pyval \<Rightarrow> line_set option" where
  "as_LineSet w v = (case deref w v of Some (ELineSet x) \<Rightarrow> Some x | _ \<Rightarrow> None)"

definition as_PointCloud :: "world \<Rightarrow> pyval \<Rightarrow> point_cloud option" where
  "as_PointCloud w v = (case deref w v of Some (EPointCloud x) \<Rightarrow> Some x | _ \<Rightarrow> None)"

definition as_TriangleMesh :: "world \<Rightarrow> pyval \<Rightarrow> triangle_mesh option" where
  "as_TriangleMesh w v = (case deref w v of Some (ETriangleMesh x) \<Rightarrow> Some x | _ \<Rightarrow> None)"

definition as_VoxelGrid :: "world \<Rightarrow> pyval \<Rightarrow> voxel_grid option" where
  "as_VoxelGrid w v = (case deref w v of Some (EVoxelGrid x) \<Rightarrow> Some x | _ \<Rightarrow> None)"

definition as_Intrinsic :: "world \<Rightarrow> pyval \<Rightarrow> pinhole_camera_intrinsic option" where
  "as_Intrinsic w v = (case deref w v of Some (EIntrinsic x) \<Rightarrow> Some x | _ \<Rightarrow> None)"

definition as_Parameters :: "world \<Rightarrow> pyval \<Rightarrow> pinhole_camera_parameters option" where
  "as_Parameters w v = (case deref w v of Some (EParameters x) \<Rightarrow> Some x | _ \<Rightarrow> None)"

definition as_Trajectory :: "world \<Rightarrow> pyval \<Rightarrow> pinhole_camera_trajectory option" where
  "as_Trajectory w v = (case deref w v of Some (ETrajectory x) \<Rightarrow> Some x | _ \<Rightarrow> None)"

definition as_Feature :: "world \<Rightarrow> pyval \<Rightarrow> feature option" where
  "as_Feature w v = (case deref w v of Some (EFeature x) \<Rightarrow> Some x | _ \<Rightarrow> None)"

definition as_PoseGraph :: "world \<Rightarrow> pyval \<Rightarrow> pose_graph option" where
  "as_PoseGraph w v = (case deref w v of Some (EPoseGraph x) \<Rightarrow> Some x | _ \<Rightarrow> None)"

text \<open>
  Conversions of a lambda's result: an entity returned by value becomes a new object at
  the end of the heap, a bool the Python bool, void \<^verbatim>\<open>None\<close>; a writer's new file system
  replaces the old one.
\<close>

definition return_entity :: "world \<Rightarrow> entity option \<Rightarrow> outcome \<times> world" where
  "return_entity w r =
     (case r of
        None \<Rightarrow> (Raise TypeError, w)
      | Some e \<Rightarrow> (Return (PRef (length (heap w))), w\<lparr>heap := heap w @ [e]\<rparr>))"

definition return_bool :: "world \<Rightarrow> (bool \<times> files) option \<Rightarrow> outcome \<times> world" where
  "return_bool w r =
     (case r of
        None \<Rightarrow> (Raise TypeError, w)
      | Some (ok, fs') \<Rightarrow> (Return (PBool ok), w\<lparr>files := fs'\<rparr>))"

definition return_void :: "world \<Rightarrow> (unit \<times> files) option \<Rightarrow> outcome \<times> world" where
  "return_void w r =
     (case r of
        None \<Rightarrow> (Raise TypeError, w)
      | Some (u, fs') \<Rightarrow> (Return PNone, w\<lparr>files := fs'\<rparr>))"

text \<open>
  The function registered under each name, applied to the bound arguments: cast them,
  run the lambda in the current file system, convert the result. An argument list of
  another length, or a failed cast, raises \<^verbatim>\<open>TypeError\<close>.
\<close>

definition py_read_image :: "native_readers \<Rightarrow> world \<Rightarrow> pyval list \<Rightarrow> outcome \<times> world" where
  "py_read_image R w vs =
     (case vs of
        [a1] \<Rightarrow>
          return_entity w (do {
            filename \<leftarrow> as_str a1;
            Some (EImage (read_image R (files w) filename)) })
      | _ \<Rightarrow> (Raise TypeError, w))"

definition py_write_image :: "native_writers \<Rightarrow> world \<Rightarrow> pyval list \<Rightarrow> outcome \<times> world" where
  "py_write_image W w vs =
     (case vs of
        [a1, a2, a3] \<Rightarrow>
          return_bool w (do {
            filename \<leftarrow> as_str a1; img \<leftarrow> as_Image w a2; quality \<leftarrow> as_int a3;
            Some (write_image W (files w) filename img quality) })
      | _ \<Rightarrow> (Raise TypeError, w))"

definition py_read_line_set :: "native_readers \<Rightarrow> world \<Rightarrow> pyval list \<Rightarrow> outcome \<times> world" where
  "py_read_line_set R w vs =
     (case vs of
        [a1, a2] \<Rightarrow>
          return_entity w (do {
            filename \<leftarrow> as_str a1; format \<leftarrow> as_str a2;
            Some (ELineSet (read_line_set R (files w) filename format)) })
      | _ \<Rightarrow> (Raise TypeError, w))"

definition py_write_line_set :: "native_writers \<Rightarrow> world \<Rightarrow> pyval list \<Rightarrow> outcome \<times> world" where
  "py_write_line_set W w vs =
     (case vs of
        [a1, a2, a3, a4] \<Rightarrow>
          return_bool w (do {
            filename \<leftarrow> as_str a1; line_set \<leftarrow> as_LineSet w a2;
            write_ascii \<leftarrow> as_bool a3; compressed \<leftarrow> as_bool a4;
            Some (write_line_set W (files w) filename line_set write_ascii compressed) })
      | _ \<Rightarrow> (Raise TypeError, w))"

definition py_read_point_cloud :: "native_readers \<Rightarrow> world \<Rightarrow> pyval list \<Rightarrow> outcome \<times> world" where
  "py_read_point_cloud R w vs =
     (case vs of
        [a1, a2, a3, a4] \<Rightarrow>
          return_entity w (do {
            filename \<leftarrow> as_str a1; format \<leftarrow> as_str a2;
            remove_nan_points \<leftarrow> as_bool a3; remove_infinite_points \<leftarrow> as_bool a4;
            Some (EPointCloud (read_point_cloud R (files w) filename format remove_nan_points
                                 remove_infinite_points)) })
      | _ \<Rightarrow> (Raise TypeError, w))"

definition py_write_point_cloud :: "native_writers \<Rightarrow> world \<Rightarrow> pyval list \<Rightarrow> outcome \<times> world" where
  "py_write_point_cloud W w vs =
     (case vs of
        [a1, a2, a3, a4] \<Rightarrow>
          return_bool w (do {
            filename \<leftarrow> as_str a1; pointcloud \<leftarrow> as_PointCloud w a2;
            write_ascii \<leftarrow> as_bool a3; compressed \<leftarrow> as_bool a4;
            Some (write_point_cloud W (files w) filename pointcloud write_ascii compressed) })
      | _ \<Rightarrow> (Raise TypeError, w))"

definition py_read_triangle_mesh :: "native_readers \<Rightarrow> world \<Rightarrow> pyval list \<Rightarrow> outcome \<times> world" where
  "py_read_triangle_mesh R w vs =
     (case vs of
        [a1] \<Rightarrow>
          return_entity w (do {
            filename \<leftarrow> as_str a1;
            Some (ETriangleMesh (read_triangle_mesh R (files w) filename)) })
      | _ \<Rightarrow> (Raise TypeError, w))"

definition py_write_triangle_mesh :: "native_writers \<Rightarrow> world \<Rightarrow> pyval list \<Rightarrow> outcome \<times> world" where
  "py_write_triangle_mesh W w vs =
     (case vs of
        [a1, a2, a3, a4, a5, a6] \<Rightarrow>
          return_bool w (do {
            filename \<leftarrow> as_str a1; mesh \<leftarrow> as_TriangleMesh w a2;
            write_ascii \<leftarrow> as_bool a3; compressed \<leftarrow> as_bool a4;
            write_vertex_normals \<leftarrow> as_bool a5; write_vertex_colors \<leftarrow> as_bool a6;
            Some (write_triangle_mesh W (files w) filename mesh write_ascii compressed
                    write_vertex_normals write_vertex_colors) })
      | _ \<Rightarrow> (Raise TypeError, w))"

definition py_read_voxel_grid :: "native_readers \<Rightarrow> world \<Rightarrow> pyval list \<Rightarrow> outcome \<times> world" where
  "py_read_voxel_grid R w vs =
     (case vs of
        [a1, a2] \<Rightarrow>
          return_entity w (do {
            filename \<leftarrow> as_str a1; format \<leftarrow> as_str a2;
            Some (EVoxelGrid (read_voxel_grid R (files w) filename format)) })
      | _ \<Rightarrow> (Raise TypeError, w))"

definition py_write_voxel_grid :: "native_writers \<Rightarrow> world \<Rightarrow> pyval list \<Rightarrow> outcome \<times> world" where
  "py_write_voxel_grid W w vs =
     (case vs of
        [a1, a2, a3, a4] \<Rightarrow>
          return_bool w (do {
            filename \<leftarrow> as_str a1; voxel_grid \<leftarrow> as_VoxelGrid w a2;
            write_ascii \<leftarrow> as_bool a3; compressed \<leftarrow> as_bool a4;
            Some (write_voxel_grid W (files w) filename voxel_grid write_ascii compressed) })
      | _ \<Rightarrow> (Raise TypeError, w))"

definition py_read_pinhole_camera_intrinsic :: "native_readers \<Rightarrow> world \<Rightarrow> pyval list \<Rightarrow> outcome \<times> world" where
  "py_read_pinhole_camera_intrinsic R w vs =
     (case vs of
        [a1] \<Rightarrow>
          return_entity w (do {
            filename \<leftarrow> as_str a1;
            Some (EIntrinsic (read_pinhole_camera_intrinsic R (files w) filename)) })
      | _ \<Rightarrow> (Raise TypeError, w))"

definition py_write_pinhole_camera_intrinsic :: "native_writers \<Rightarrow> world \<Rightarrow> pyval list \<Rightarrow> outcome \<times> world" where
  "py_write_pinhole_camera_intrinsic W w vs =
     (case vs of
        [a1, a2] \<Rightarrow>
          return_bool w (do {
            filename \<leftarrow> as_str a1; intrinsic \<leftarrow> as_Intrinsic w a2;
            Some (write_pinhole_camera_intrinsic W (files w) filename intrinsic) })
      | _ \<Rightarrow> (Raise TypeError, w))"

definition py_read_pinhole_camera_parameters :: "native_readers \<Rightarrow> world \<Rightarrow> pyval list \<Rightarrow> outcome \<times> world" where
  "py_read_pinhole_camera_parameters R w vs =
     (case vs of
        [a1] \<Rightarrow>
          return_entity w (do {
            filename \<leftarrow> as_str a1;
            Some (EParameters (read_pinhole_camera_parameters R (files w) filename)) })
      | _ \<Rightarrow> (Raise TypeError, w))"

definition py_write_pinhole_camera_parameters :: "native_writers \<Rightarrow> world \<Rightarrow> pyval list \<Rightarrow> outcome \<times> world" where
  "py_write_pinhole_camera_parameters W w vs =
     (case vs of
        [a1, a2] \<Rightarrow>
          return_bool w (do {
            filename \<leftarrow> as_str a1; parameters \<leftarrow> as_Parameters w a2;
            Some (write_pinhole_camera_parameters W (files w) filename parameters) })
      | _ \<Rightarrow> (Raise TypeError, w))"

definition py_read_pinhole_camera_trajectory :: "native_readers \<Rightarrow> world \<Rightarrow> pyval list \<Rightarrow> outcome \<times> world" where
  "py_read_pinhole_camera_trajectory R w vs =
     (case vs of
        [a1] \<Rightarrow>
          return_entity w (do {
            filename \<leftarrow> as_str a1;
            Some (ETrajectory (read_pinhole_camera_trajectory R (files w) filename)) })
      | _ \<Rightarrow> (Raise TypeError, w))"

definition py_write_pinhole_camera_trajectory :: "native_writers \<Rightarrow> world \<Rightarrow> pyval list \<Rightarrow> outcome \<times> world" where
  "py_write_pinhole_camera_trajectory W w vs =
     (case vs of
        [a1, a2] \<Rightarrow>
          return_bool w (do {
            filename \<leftarrow> as_str a1; trajectory \<leftarrow> as_Trajectory w a2;
            Some (write_pinhole_camera_trajectory W (files w) filename trajectory) })
      | _ \<Rightarrow> (Raise TypeError, w))"

definition py_read_feature :: "native_readers \<Rightarrow> world \<Rightarrow> pyval list \<Rightarrow> outcome \<times> world" where
  "py_read_feature R w vs =
     (case vs of
        [a1] \<Rightarrow>
          return_entity w (do {
            filename \<leftarrow> as_str a1;
            Some (EFeature (read_feature R (files w) filename)) })
      | _ \<Rightarrow> (Raise TypeError, w))"

definition py_write_feature :: "native_writers \<Rightarrow> world \<Rightarrow> pyval list \<Rightarrow> outcome \<times> world" where
  "py_write_feature W w vs =
     (case vs of
        [a1, a2] \<Rightarrow>
          return_bool w (do {
            filename \<leftarrow> as_str a1; feature \<leftarrow> as_Feature w a2;
            Some (write_feature W (files w) filename feature) })
      | _ \<Rightarrow> (Raise TypeError, w))"

definition py_read_pose_graph :: "native_readers \<Rightarrow> world \<Rightarrow> pyval list \<Rightarrow> outcome \<times> world" where
  "py_read_pose_graph R w vs =
     (case vs of
        [a1] \<Rightarrow>
          return_entity w (do {
            filename \<leftarrow> as_str a1;
            Some (EPoseGraph (read_pose_graph R (files w) filename)) })
      | _ \<Rightarrow> (Raise TypeError, w))"

definition py_write_pose_graph :: "native_writers \<Rightarrow> world \<Rightarrow> pyval list \<Rightarrow> outcome \<times> world" where
  "py_write_pose_graph W w vs =
     (case vs of
        [a1, a2] \<Rightarrow>
          return_void w (do {
            filename \<leftarrow> as_str a1; pose_graph \<leftarrow> as_PoseGraph w a2;
            Some (write_pose_graph W (files w) filename pose_graph) })
      | _ \<Rightarrow> (Raise TypeError, w))"

fun invoke ::
  "native_readers \<Rightarrow> native_writers \<Rightarrow> world \<Rightarrow> operation \<Rightarrow> pyval list \<Rightarrow> outcome \<times> world"
where
  "invoke R W w (Read Image) vs = py_read_image R w vs"
| "invoke R W w (Write Image) vs = py_write_image W w vs"
| "invoke R W w (Read LineSet) vs = py_read_line_set R w vs"
| "invoke R W w (Write LineSet) vs = py_write_line_set W w vs"
| "invoke R W w (Read PointCloud) vs = py_read_point_cloud R w vs"
| "invoke R W w (Write PointCloud) vs = py_write_point_cloud W w vs"
| "invoke R W w (Read TriangleMesh) vs = py_read_triangle_mesh R w vs"
| "invoke R W w (Write TriangleMesh) vs = py_write_triangle_mesh W w vs"
| "invoke R W w (Read VoxelGrid) vs = py_read_voxel_grid R w vs"
| "invoke R W w (Write VoxelGrid) vs = py_write_voxel_grid W w vs"
| "invoke R W w (Read PinholeCameraIntrinsic) vs = py_read_pinhole_camera_intrinsic R w vs"
| "invoke R W w (Write PinholeCameraIntrinsic) vs = py_write_pinhole_camera_intrinsic W w vs"
| "invoke R W w (Read PinholeCameraParameters) vs = py_read_pinhole_camera_parameters R w vs"
| "invoke R W w (Write PinholeCameraParameters) vs = py_write_pinhole_camera_parameters W w vs"
| "invoke R W w (Read PinholeCameraTrajectory) vs = py_read_pinhole_camera_trajectory R w vs"
| "invoke R W w (Write PinholeCameraTrajectory) vs = py_write_pinhole_camera_trajectory W w vs"
| "invoke R W w (Read Feature) vs = py_read_feature R w vs"
| "invoke R W w (Write Feature) vs = py_write_feature W w vs"
| "invoke R W w (Read PoseGraph) vs = py_read_pose_graph R w vs"
| "invoke R W w (Write PoseGraph) vs = py_write_pose_graph W w vs"

text \<open>A call from Python: bind the arguments against the table, then run the function.\<close>

definition call ::
  "native_readers \<Rightarrow> native_writers \<Rightarrow> world \<Rightarrow> operation \<Rightarrow> pyval list
     \<Rightarrow> (string \<times> pyval) list \<Rightarrow> outcome \<times> world" where
  "call R W w op args kwargs =
     (case bind_args (params op) args kwargs of
        None \<Rightarrow> (Raise TypeError, w)
      | Some vs \<Rightarrow> invoke R W w op vs)"

text \<open>
  The call every read lambda makes, by kind: the native reader on a default-constructed
  instance, with the options the lambda passes on. The result is the reader's flag and
  the entity it leaves in the instance.
\<close>

fun native_read ::
  "native_readers \<Rightarrow> files \<Rightarrow> kind \<Rightarrow> string \<Rightarrow> string \<Rightarrow> bool \<Rightarrow> bool \<Rightarrow> bool \<times> entity"
where
  "native_read R fs Image filename format rn ri =
     apsnd EImage (ReadImage R fs filename new_Image)"
| "native_read R fs LineSet filename format rn ri =
     apsnd ELineSet (ReadLineSet R fs filename new_LineSet format)"
| "native_read R fs PointCloud filename format rn ri =
     apsnd EPointCloud (ReadPointCloud R fs filename new_PointCloud format rn ri)"
| "native_read R fs TriangleMesh filename format rn ri =
     apsnd ETriangleMesh (ReadTriangleMesh R fs filename new_TriangleMesh)"
| "native_read R fs VoxelGrid filename format rn ri =
     apsnd EVoxelGrid (ReadVoxelGrid R fs filename new_VoxelGrid format)"
| "native_read R fs PinholeCameraIntrinsic filename format rn ri =
     apsnd EIntrinsic (ReadIJsonConvertible_Intrinsic R fs filename new_PinholeCameraIntrinsic)"
| "native_read R fs PinholeCameraParameters filename format rn ri =
     apsnd EParameters (ReadIJsonConvertible_Parameters R fs filename new_PinholeCameraParameters)"
| "native_read R fs PinholeCameraTrajectory filename format rn ri =
     apsnd ETrajectory (ReadPinholeCameraTrajectory R fs filename new_PinholeCameraTrajectory)"
| "native_read R fs Feature filename format rn ri =
     apsnd EFeature (ReadFeature R fs filename new_Feature)"
| "native_read R fs PoseGraph filename format rn ri =
     apsnd EPoseGraph (ReadPoseGraph R fs filename new_PoseGraph)"

section \<open>The I/O core behind the native readers\<close>

text \<open>
  Modelled from the spec: the native readers (\<^verbatim>\<open>io::ReadImage\<close>, \<^verbatim>\<open>io::ReadPointCloud\<close>, ...)
  are declared in headers and defined in files that are not part of the sources. What
  follows is the read path of the unified facade as the specification words it: the
  extension sniffer, the format registry, the decoder of the codec found, the filter
  stage for point clouds, and the conversion of every failure into the flag false beside
  a default-constructed entity. The decoders themselves are parameters; nothing is
  modelled of encoding.
\<close>

datatype io_error = UnsupportedFormat | ParseError | IOError | ShapeMismatch

type_synonym 'e decoder = "byte list \<Rightarrow> io_error + 'e"

definition to_lower :: "char \<Rightarrow> char" where
  "to_lower c =
     (case map_of (zip ''ABCDEFGHIJKLMNOPQRSTUVWXYZ'' ''abcdefghijklmnopqrstuvwxyz'') c of
        Some l \<Rightarrow> l
      | None \<Rightarrow> c)"

text \<open>The suffix after the last dot; a name without a dot has the empty suffix.\<close>

definition extension :: "string \<Rightarrow> string" where
  "extension filename =
     (if CHR ''.'' \<in> set filename
      then rev (takeWhile (\<lambda>c. c \<noteq> CHR ''.'') (rev filename))
      else [])"

text \<open>
  The registry of one kind is a table from format tags to decoders, looked up without
  regard to case. The sniffer returns the lowercase suffix when it is a tag of the table,
  else the kind's default tag.
\<close>

definition codecFor :: "(string \<times> 'e decoder) list \<Rightarrow> string \<Rightarrow> 'e decoder option" where
  "codecFor table formatTag =
     map_of (map (\<lambda>(t, d). (map to_lower t, d)) table) (map to_lower formatTag)"

definition sniff :: "(string \<times> 'e decoder) list \<Rightarrow> string \<Rightarrow> string \<Rightarrow> string" where
  "sniff table default_tag filename =
     (let suffix = map to_lower (extension filename)
      in if suffix \<in> set (map (\<lambda>(t, d). map to_lower t) table) then suffix else default_tag)"

definition decode_file ::
  "(string \<times> 'e decoder) list \<Rightarrow> string \<Rightarrow> files \<Rightarrow> string \<Rightarrow> string \<Rightarrow> io_error + 'e" where
  "decode_file table default_tag fs filename formatTag =
     (let tag = (if formatTag = ''auto'' then sniff table default_tag filename else formatTag)
      in case codecFor table tag of
           None \<Rightarrow> Inl UnsupportedFormat
         | Some decoder \<Rightarrow>
             (case fs filename of
                None \<Rightarrow> Inl IOError
              | Some bytes \<Rightarrow> decoder bytes))"

definition facade_read ::
  "(string \<times> 'e decoder) list \<Rightarrow> string \<Rightarrow> ('e \<Rightarrow> 'e) \<Rightarrow> 'e \<Rightarrow> files \<Rightarrow> string \<Rightarrow> string
     \<Rightarrow> bool \<times> 'e" where
  "facade_read table default_tag stage blank fs filename formatTag =
     (case decode_file table default_tag fs filename formatTag of
        Inl err \<Rightarrow> (False, blank)
      | Inr e \<Rightarrow> (True, stage e))"

subsection \<open>The filter stage\<close>

text \<open>
  Remove the points with a NaN coordinate (if requested), then the points with an
  infinite coordinate (if requested); the entries of the normal and colour sequences at
  the indices of the removed points are removed with them.
\<close>

fun is_inf :: "scalar \<Rightarrow> bool" where
  "is_inf PosInf = True"
| "is_inf NegInf = True"
| "is_inf _ = False"

fun has_nan :: "vec3 \<Rightarrow> bool" where
  "has_nan (x, y, z) = (x = NaN \<or> y = NaN \<or> z = NaN)"

fun has_inf :: "vec3 \<Rightarrow> bool" where
  "has_inf (x, y, z) = (is_inf x \<or> is_inf y \<or> is_inf z)"

definition select :: "bool list \<Rightarrow> 'a list \<Rightarrow> 'a list" where
  "select keep xs = map snd (filter fst (zip keep xs))"

definition remove_points :: "(vec3 \<Rightarrow> bool) \<Rightarrow> point_cloud \<Rightarrow> point_cloud" where
  "remove_points bad pc =
     (let keep = map (\<lambda>p. \<not> bad p) (points pc)
      in \<lparr>points = select keep (points pc),
          normals = select keep (normals pc),
          colors = select keep (colors pc)\<rparr>)"

definition filter_stage :: "bool \<Rightarrow> bool \<Rightarrow> point_cloud \<Rightarrow> point_cloud" where
  "filter_stage remove_nan_points remove_infinite_points pc =
     (let pc1 = (if remove_nan_points then remove_points has_nan pc else pc);
          pc2 = (if remove_infinite_points then remove_points has_inf pc1 else pc1)
      in pc2)"

subsection \<open>The native readers of the core\<close>

text \<open>
  The core's configuration: the registry of each kind and the default tag of each kind.
  A reader without a format parameter resolves the format from the file name; only the
  reader of point clouds has a filter stage.
\<close>

record core =
  image_codecs :: "(string \<times> image decoder) list"
  line_set_codecs :: "(string \<times> line_set decoder) list"
  point_cloud_codecs :: "(string \<times> point_cloud decoder) list"
  triangle_mesh_codecs :: "(string \<times> triangle_mesh decoder) list"
  voxel_grid_codecs :: "(string \<times> voxel_grid decoder) list"
  intrinsic_codecs :: "(string \<times> pinhole_camera_intrinsic decoder) list"
  parameters_codecs :: "(string \<times> pinhole_camera_parameters decoder) list"
  trajectory_codecs :: "(string \<times> pinhole_camera_trajectory decoder) list"
  feature_codecs :: "(string \<times> feature decoder) list"
  pose_graph_codecs :: "(string \<times> pose_graph decoder) list"
  default_tag :: "kind \<Rightarrow> string"

definition core_readers :: "core \<Rightarrow> native_readers" where
  "core_readers c =
     \<lparr>ReadImage = (\<lambda>fs filename img.
        facade_read (image_codecs c) (default_tag c Image) id new_Image fs filename ''auto''),
      ReadLineSet = (\<lambda>fs filename line_set format.
        facade_read (line_set_codecs c) (default_tag c LineSet) id new_LineSet fs filename format),
      ReadPointCloud = (\<lambda>fs filename pcd format remove_nan_points remove_infinite_points.
        facade_read (point_cloud_codecs c) (default_tag c PointCloud)
          (filter_stage remove_nan_points remove_infinite_points) new_PointCloud fs filename
          format),
      ReadTriangleMesh = (\<lambda>fs filename mesh.
        facade_read (triangle_mesh_codecs c) (default_tag c TriangleMesh) id new_TriangleMesh fs
          filename ''auto''),
      ReadVoxelGrid = (\<lambda>fs filename voxel_grid format.
        facade_read (voxel_grid_codecs c) (default_tag c VoxelGrid) id new_VoxelGrid fs filename
          format),
      ReadIJsonConvertible_Intrinsic = (\<lambda>fs filename intrinsic.
        facade_read (intrinsic_codecs c) (default_tag c PinholeCameraIntrinsic) id
          new_PinholeCameraIntrinsic fs filename ''auto''),
      ReadIJsonConvertible_Parameters = (\<lambda>fs filename parameters.
        facade_read (parameters_codecs c) (default_tag c PinholeCameraParameters) id
          new_PinholeCameraParameters fs filename ''auto''),
      ReadPinholeCameraTrajectory = (\<lambda>fs filename trajectory.
        facade_read (trajectory_codecs c) (default_tag c PinholeCameraTrajectory) id
          new_PinholeCameraTrajectory fs filename ''auto''),
      ReadFeature = (\<lambda>fs filename feature.
        facade_read (feature_codecs c) (default_tag c Feature) id new_Feature fs filename ''auto''),
      ReadPoseGraph = (\<lambda>fs filename pose_graph.
        facade_read (pose_graph_codecs c) (default_tag c PoseGraph) id new_PoseGraph fs filename
          ''auto'')\<rparr>"

text \<open>
  What the core decodes from a file, by kind: the registry of the kind, the sniffer and
  the decoder found, as \<open>decode_file\<close> runs them, with the decoded value as an entity.
\<close>

fun core_decode :: "core \<Rightarrow> files \<Rightarrow> kind \<Rightarrow> string \<Rightarrow> string \<Rightarrow> io_error + entity" where
  "core_decode c fs Image filename formatTag =
     map_sum id EImage
       (decode_file (image_codecs c) (default_tag c Image) fs filename formatTag)"
| "core_decode c fs LineSet filename formatTag =
     map_sum id ELineSet
       (decode_file (line_set_codecs c) (default_tag c LineSet) fs filename formatTag)"
| "core_decode c fs PointCloud filename formatTag =
     map_sum id EPointCloud
       (decode_file (point_cloud_codecs c) (default_tag c PointCloud) fs filename formatTag)"
| "core_decode c fs TriangleMesh filename formatTag =
     map_sum id ETriangleMesh
       (decode_file (triangle_mesh_codecs c) (default_tag c TriangleMesh) fs filename formatTag)"
| "core_decode c fs VoxelGrid filename formatTag =
     map_sum id EVoxelGrid
       (decode_file (voxel_grid_codecs c) (default_tag c VoxelGrid) fs filename formatTag)"
| "core_decode c fs PinholeCameraIntrinsic filename formatTag =
     map_sum id EIntrinsic
       (decode_file (intrinsic_codecs c) (default_tag c PinholeCameraIntrinsic) fs filename
          formatTag)"
| "core_decode c fs PinholeCameraParameters filename formatTag =
     map_sum id EParameters
       (decode_file (parameters_codecs c) (default_tag c PinholeCameraParameters) fs filename
          formatTag)"
| "core_decode c fs PinholeCameraTrajectory filename formatTag =
     map_sum id ETrajectory
       (decode_file (trajectory_codecs c) (default_tag c PinholeCameraTrajectory) fs filename
          formatTag)"
| "core_decode c fs Feature filename formatTag =
     map_sum id EFeature
       (decode_file (feature_codecs c) (default_tag c Feature) fs filename formatTag)"
| "core_decode c fs PoseGraph filename formatTag =
     map_sum id EPoseGraph
       (decode_file (pose_graph_codecs c) (default_tag c PoseGraph) fs filename formatTag)"

section \<open>A concrete native layer for the examples\<close>

text \<open>
  The examples below run the bindings on a small installation: the core with two
  registered decoders, for point clouds and for line sets in the format \<^verbatim>\<open>xyz\<close>, which
  read every three bytes as one point (the byte 255 standing for NaN, 254 for an infinite
  coordinate) and reject a file whose length is no multiple of three; and writers that
  report success and store, under the name given, an empty file, or for a point cloud a
  file of one zero byte for each point.
\<close>

definition example_scalar :: "byte \<Rightarrow> scalar" where
  "example_scalar b = (if b = 255 then NaN else if b = 254 then PosInf else Finite (real (unat b)))"

fun example_points :: "byte list \<Rightarrow> io_error + vec3 list" where
  "example_points [] = Inr []"
| "example_points (x # y # z # bytes) =
     (case example_points bytes of
        Inl err \<Rightarrow> Inl err
      | Inr ps \<Rightarrow> Inr ((example_scalar x, example_scalar y, example_scalar z) # ps))"
| "example_points _ = Inl ParseError"

definition example_decoder :: "point_cloud decoder" where
  "example_decoder bytes =
     (case example_points bytes of
        Inl err \<Rightarrow> Inl err
      | Inr ps \<Rightarrow> Inr \<lparr>points = ps, normals = [], colors = []\<rparr>)"

definition example_line_decoder :: "line_set decoder" where
  "example_line_decoder bytes =
     (case example_points bytes of
        Inl err \<Rightarrow> Inl err
      | Inr ps \<Rightarrow> Inr \<lparr>ls_vertices = ps, ls_lines = []\<rparr>)"

definition example_core :: core where
  "example_core =
     \<lparr>image_codecs = [], line_set_codecs = [(''xyz'', example_line_decoder)],
      point_cloud_codecs = [(''xyz'', example_decoder)],
      triangle_mesh_codecs = [], voxel_grid_codecs = [], intrinsic_codecs = [],
      parameters_codecs = [], trajectory_codecs = [], feature_codecs = [],
      pose_graph_codecs = [], default_tag = (\<lambda>k. ''xyz'')\<rparr>"

definition example_writers :: native_writers where
  "example_writers =
     \<lparr>WriteImage = (\<lambda>fs filename img quality. (True, fs(filename \<mapsto> []))),
      WriteLineSet = (\<lambda>fs filename line_set write_ascii compressed. (True, fs(filename \<mapsto> []))),
      WritePointCloud = (\<lambda>fs filename pcd write_ascii compressed.
        (True, fs(filename \<mapsto> replicate (length (points pcd)) 0))),
      WriteTriangleMesh = (\<lambda>fs filename mesh write_ascii compressed write_vertex_normals
        write_vertex_colors. (True, fs(filename \<mapsto> []))),
      WriteVoxelGrid = (\<lambda>fs filename voxel_grid write_ascii compressed.
        (True, fs(filename \<mapsto> []))),
      WriteIJsonConvertible_Intrinsic = (\<lambda>fs filename intrinsic. (True, fs(filename \<mapsto> []))),
      WriteIJsonConvertible_Parameters = (\<lambda>fs filename parameters. (True, fs(filename \<mapsto> []))),
      WritePinholeCameraTrajectory = (\<lambda>fs filename trajectory. (True, fs(filename \<mapsto> []))),
      WriteFeature = (\<lambda>fs filename feature. (True, fs(filename \<mapsto> []))),
      WritePoseGraph = (\<lambda>fs filename pose_graph. (True, fs(filename \<mapsto> [])))\<rparr>"

section \<open>Properties of the binding\<close>

subsection \<open>Shared lemmas\<close>

lemmas py_read_defs =
  py_read_image_def py_read_line_set_def py_read_point_cloud_def py_read_triangle_mesh_def
  py_read_voxel_grid_def py_read_pinhole_camera_intrinsic_def
  py_read_pinhole_camera_parameters_def py_read_pinhole_camera_trajectory_def
  py_read_feature_def py_read_pose_graph_def

lemmas py_write_defs =
  py_write_image_def py_write_line_set_def py_write_point_cloud_def
  py_write_triangle_mesh_def py_write_voxel_grid_def py_write_pinhole_camera_intrinsic_def
  py_write_pinhole_camera_parameters_def py_write_pinhole_camera_trajectory_def
  py_write_feature_def py_write_pose_graph_def

lemmas read_lambda_defs =
  read_image_def read_line_set_def read_point_cloud_def read_triangle_mesh_def
  read_voxel_grid_def read_pinhole_camera_intrinsic_def read_pinhole_camera_parameters_def
  read_pinhole_camera_trajectory_def read_feature_def read_pose_graph_def

lemma heap_return_bool: "heap (snd (return_bool w r)) = heap w"
  by (simp add: return_bool_def split: option.splits prod.splits)

lemma heap_return_void: "heap (snd (return_void w r)) = heap w"
  by (simp add: return_void_def split: option.splits prod.splits)

lemma heap_invoke_write: "heap (snd (invoke R W w (Write k) vs)) = heap w"
  by (cases k) (simp_all add: py_write_defs heap_return_bool heap_return_void split: list.splits)

text \<open>A keyword argument whose name no parameter has fails the binding of the arguments.\<close>

lemma bind_args_leftover_keyword:
  "name \<in> fst ` set kwargs \<Longrightarrow> name \<notin> fst ` set ps \<Longrightarrow> bind_args ps args kwargs = None"
proof (induction ps args kwargs rule: bind_args.induct)
  case (1 kwargs)
  then show ?case by auto
next
  case (2 a args kwargs)
  then show ?case by simp
next
  case (3 n dflt ps a args kwargs)
  then show ?case by simp
next
  case (4 n dflt ps kwargs)
  from "4.prems" have neq: "name \<noteq> n" and rest: "name \<notin> fst ` set ps" by auto
  from "4.prems"(1) neq have kept: "name \<in> fst ` set (filter (\<lambda>kv. fst kv \<noteq> n) kwargs)"
    by auto
  show ?case
    using "4.IH" "4.prems"(1) kept rest by (auto split: option.splits)
qed

lemma format_param:
  "map_of (params (Read k)) ''format'' =
     (if k \<in> {LineSet, PointCloud, VoxelGrid} then Some (Some (PStr ''auto'')) else None)"
  by (cases k) simp_all

text \<open>A read called with a file name alone returns a new object holding what the native
  reader left in the default-constructed instance.\<close>

lemma call_read_filename:
  "call R W w (Read k) [PStr filename] [] =
     (Return (PRef (length (heap w))),
      w\<lparr>heap := heap w @ [snd (native_read R (files w) k filename ''auto'' True True)]\<rparr>)"
  by (cases k)
     (simp_all add: call_def py_read_defs read_lambda_defs return_entity_def
        split: prod.splits)

lemma call_read_format:
  "k \<in> {LineSet, PointCloud, VoxelGrid} \<Longrightarrow>
   call R W w (Read k) [PStr filename] [(''format'', PStr format)] =
     (Return (PRef (length (heap w))),
      w\<lparr>heap := heap w @ [snd (native_read R (files w) k filename format True True)]\<rparr>)"
  by (cases k)
     (simp_all add: call_def py_read_defs read_lambda_defs return_entity_def
        split: prod.splits)

lemma call_read_point_cloud_full:
  "call R W w (Read PointCloud) [PStr filename, PStr format, PBool rn, PBool ri] [] =
     (Return (PRef (length (heap w))),
      w\<lparr>heap := heap w @ [snd (native_read R (files w) PointCloud filename format rn ri)]\<rparr>)"
  by (simp add: call_def py_read_defs read_lambda_defs return_entity_def split: prod.splits)

lemma kind_of_native_read: "kind_of (snd (native_read R fs k filename format rn ri)) = k"
  by (cases k) simp_all

text \<open>The filter stage keeps exactly the points that pass, with the entries beside them.\<close>

lemma select_Nil: "select keep [] = []"
  by (simp add: select_def)

lemma select_map: "select (map P xs) xs = filter P xs"
  by (induction xs) (simp_all add: select_def)

lemma zip_select:
  "zip (select (map P xs) xs) (select (map P xs) ys) = filter (\<lambda>(x, y). P x) (zip xs ys)"
proof (induction xs arbitrary: ys)
  case Nil
  then show ?case by (simp add: select_def)
next
  case (Cons x xs)
  show ?case
  proof (cases ys)
    case Nil
    then show ?thesis by (simp add: select_def)
  next
    case (Cons y ys')
    with Cons.IH [of ys'] show ?thesis by (simp add: select_def)
  qed
qed

lemma length_select:
  "length ys = length xs \<Longrightarrow> length (select (map P xs) ys) = length (filter P xs)"
  by (induction xs ys rule: list_induct2') (simp_all add: select_def)

lemma points_remove_points:
  "points (remove_points bad pc) = filter (\<lambda>p. \<not> bad p) (points pc)"
  by (simp add: remove_points_def Let_def select_map)

lemma normals_remove_points:
  "zip (points (remove_points bad pc)) (normals (remove_points bad pc)) =
     filter (\<lambda>(p, n). \<not> bad p) (zip (points pc) (normals pc))"
  by (simp add: remove_points_def Let_def zip_select)

lemma colors_remove_points:
  "zip (points (remove_points bad pc)) (colors (remove_points bad pc)) =
     filter (\<lambda>(p, n). \<not> bad p) (zip (points pc) (colors pc))"
  by (simp add: remove_points_def Let_def zip_select)

lemma aligned_remove_points:
  "length (normals pc) = length (points pc) \<Longrightarrow>
     length (normals (remove_points bad pc)) = length (points (remove_points bad pc))"
  "length (colors pc) = length (points pc) \<Longrightarrow>
     length (colors (remove_points bad pc)) = length (points (remove_points bad pc))"
  by (simp_all add: remove_points_def Let_def select_map length_select)

lemma absent_remove_points:
  "normals pc = [] \<Longrightarrow> normals (remove_points bad pc) = []"
  "colors pc = [] \<Longrightarrow> colors (remove_points bad pc) = []"
  by (simp_all add: remove_points_def Let_def select_Nil)

lemma points_filter_stage:
  "points (filter_stage rn ri pc) =
     filter (\<lambda>p. \<not> (rn \<and> has_nan p) \<and> \<not> (ri \<and> has_inf p)) (points pc)"
  by (simp add: filter_stage_def points_remove_points)

lemma normals_filter_stage:
  "zip (points (filter_stage rn ri pc)) (normals (filter_stage rn ri pc)) =
     filter (\<lambda>(p, n). \<not> (rn \<and> has_nan p) \<and> \<not> (ri \<and> has_inf p)) (zip (points pc) (normals pc))"
  by (auto simp add: filter_stage_def normals_remove_points case_prod_unfold intro: filter_cong)

lemma colors_filter_stage:
  "zip (points (filter_stage rn ri pc)) (colors (filter_stage rn ri pc)) =
     filter (\<lambda>(p, n). \<not> (rn \<and> has_nan p) \<and> \<not> (ri \<and> has_inf p)) (zip (points pc) (colors pc))"
  by (auto simp add: filter_stage_def colors_remove_points case_prod_unfold intro: filter_cong)

lemma aligned_filter_stage:
  "length (normals pc) = length (points pc) \<Longrightarrow>
     length (normals (filter_stage rn ri pc)) = length (points (filter_stage rn ri pc))"
  "length (colors pc) = length (points pc) \<Longrightarrow>
     length (colors (filter_stage rn ri pc)) = length (points (filter_stage rn ri pc))"
  by (simp_all add: filter_stage_def aligned_remove_points)

lemma absent_filter_stage:
  "normals pc = [] \<Longrightarrow> normals (filter_stage rn ri pc) = []"
  "colors pc = [] \<Longrightarrow> colors (filter_stage rn ri pc) = []"
  by (simp_all add: filter_stage_def absent_remove_points)

lemma core_ReadPointCloud:
  "ReadPointCloud (core_readers c) fs filename pcd format rn ri =
     (case decode_file (point_cloud_codecs c) (default_tag c PointCloud) fs filename format of
        Inl err \<Rightarrow> (False, new_PointCloud)
      | Inr pc \<Rightarrow> (True, filter_stage rn ri pc))"
  by (simp add: core_readers_def facade_read_def)

lemma native_read_other_kinds:
  "k \<noteq> PointCloud \<Longrightarrow>
     native_read R fs k filename format rn ri = native_read R fs k filename format rn' ri'"
  by (cases k) simp_all


lemmas example_defs =
  core_readers_def example_core_def facade_read_def decode_file_def sniff_def codecFor_def
  extension_def to_lower_def example_decoder_def example_line_decoder_def example_scalar_def
  filter_stage_def
  remove_points_def select_def new_PointCloud_def

text \<open>The readers of the core: the flag, the entity of a failed read, the entity of a read
  without filter stage; and the entity a written point cloud reaches the native writer as.\<close>

lemma core_flag:
  "fst (native_read (core_readers c) fs k filename ''auto'' rn ri) =
     (\<not> isl (core_decode c fs k filename ''auto''))"
  by (cases k) (simp_all add: core_readers_def facade_read_def split: sum.splits)

lemma core_failed_read:
  "isl (core_decode c fs k filename ''auto'') \<Longrightarrow>
     native_read (core_readers c) fs k filename ''auto'' rn ri = (False, new_entity k)"
  by (cases k) (auto simp add: core_readers_def facade_read_def split: sum.splits)

lemma core_failed_read_format:
  "k \<in> {LineSet, PointCloud, VoxelGrid} \<Longrightarrow> isl (core_decode c fs k filename format) \<Longrightarrow>
     native_read (core_readers c) fs k filename format rn ri = (False, new_entity k)"
  by (cases k) (auto simp add: core_readers_def facade_read_def split: sum.splits)

lemma decode_file_missing: "fs filename = None \<Longrightarrow> isl (decode_file table dflt fs filename tag)"
  by (simp add: decode_file_def Let_def split: option.splits)

lemma core_decode_missing: "fs filename = None \<Longrightarrow> isl (core_decode c fs k filename tag)"
  by (cases k) (simp_all add: decode_file_missing isl_map_sum)

lemma core_read_other_kinds:
  "k \<noteq> PointCloud \<Longrightarrow>
     native_read (core_readers c) fs k filename ''auto'' rn ri =
       (case core_decode c fs k filename ''auto'' of
          Inl err \<Rightarrow> (False, new_entity k)
        | Inr e \<Rightarrow> (True, e))"
  by (cases k) (simp_all add: core_readers_def facade_read_def split: sum.splits)

lemma call_write_point_cloud:
  "r < length (heap w) \<Longrightarrow> heap w ! r = EPointCloud pc \<Longrightarrow>
   call R W w (Write PointCloud) [PStr filename, PRef r, PBool write_ascii, PBool compressed] [] =
     (Return (PBool (fst (WritePointCloud W (files w) filename pc write_ascii compressed))),
      w\<lparr>files := snd (WritePointCloud W (files w) filename pc write_ascii compressed)\<rparr>)"
  by (simp add: call_def py_write_point_cloud_def as_PointCloud_def return_bool_def
        write_point_cloud_def split: prod.splits)

subsection \<open>Return values of the write operations\<close>

text \<open>
  C3 (every \<^verbatim>\<open>write_<kind>\<close> returns a boolean success flag): the code at the input where
  this fails. \<^verbatim>\<open>write_pose_graph\<close>, called with a file name and a pose graph, returns \<^verbatim>\<open>None\<close>
  whatever the native writer reports: its lambda calls \<^verbatim>\<open>io::WritePoseGraph\<close> without
  returning the result, where the nine other write lambdas return it.
\<close>

theorem C3_write_pose_graph_returns_None:
  "fst (call R W \<lparr>files = fs, heap = [EPoseGraph g]\<rparr> (Write PoseGraph)
          [PStr filename, PRef 0] []) = Return PNone"
  by (simp add: call_def py_write_pose_graph_def as_PoseGraph_def return_void_def
        write_pose_graph_def split: prod.splits)

lemma return_bool_cases:
  "fst (return_bool w r) = Raise TypeError \<or> (\<exists>ok. fst (return_bool w r) = Return (PBool ok))"
  by (simp add: return_bool_def split: option.splits prod.splits)

text \<open>
  X1: the write of every kind other than pose graphs returns a bool. Whatever the native
  layer and the arguments, the call either raises \<^verbatim>\<open>TypeError\<close> (the arguments do not fit) or
  returns \<^verbatim>\<open>True\<close> or \<^verbatim>\<open>False\<close>, the flag of the native writer.
\<close>

theorem X1_other_writes_return_bool:
  assumes "k \<noteq> PoseGraph"
  shows "fst (call R W w (Write k) args kwargs) = Raise TypeError
     \<or> (\<exists>ok. fst (call R W w (Write k) args kwargs) = Return (PBool ok))"
proof (cases "bind_args (params (Write k)) args kwargs")
  case None
  then show ?thesis by (simp add: call_def)
next
  case (Some vs)
  have "fst (invoke R W w (Write k) vs) = Raise TypeError
     \<or> (\<exists>ok. fst (invoke R W w (Write k) vs) = Return (PBool ok))"
    using assms
    by (cases k) (simp_all add: py_write_defs return_bool_cases split: list.splits)
  with Some show ?thesis by (simp add: call_def)
qed

theorem X1_other_writes_return_bool_witness:
  "Image \<noteq> PoseGraph
   \<and> fst (call (core_readers example_core) example_writers
        \<lparr>files = Map.empty, heap = [EImage new_Image]\<rparr> (Write Image)
        [PStr ''picture.png'', PRef 0] []) = Return (PBool True)"
proof -
  have h: "Image \<noteq> PoseGraph" by simp
  from X1_other_writes_return_bool [OF h, of "core_readers example_core" example_writers
      "\<lparr>files = Map.empty, heap = [EImage new_Image]\<rparr>" "[PStr ''picture.png'', PRef 0]" "[]"]
  show ?thesis
    by (simp add: call_def py_write_image_def as_Image_def return_bool_def write_image_def
          example_writers_def)
qed

subsection \<open>Defaults of the options\<close>

text \<open>
  C5: the defaults of the options are exactly these. \<^verbatim>\<open>remove_nan_points\<close> and
  \<^verbatim>\<open>remove_infinite_points\<close> are parameters of \<^verbatim>\<open>read_point_cloud\<close> only, with default true;
  \<^verbatim>\<open>quality\<close> is a parameter of \<^verbatim>\<open>write_image\<close> only, with default 90; \<^verbatim>\<open>write_ascii\<close> and
  \<^verbatim>\<open>compressed\<close> are parameters of the writes of line sets, point clouds, triangle meshes
  and voxel grids, with default false; \<^verbatim>\<open>write_vertex_normals\<close> and \<^verbatim>\<open>write_vertex_colors\<close>
  are parameters of \<^verbatim>\<open>write_triangle_mesh\<close> only, with default true.
\<close>

theorem C5_option_defaults:
  "map_of (params op) ''remove_nan_points'' =
     (if op = Read PointCloud then Some (Some (PBool True)) else None)
   \<and> map_of (params op) ''remove_infinite_points'' =
     (if op = Read PointCloud then Some (Some (PBool True)) else None)
   \<and> map_of (params op) ''quality'' =
     (if op = Write Image then Some (Some (PInt 90)) else None)
   \<and> map_of (params op) ''write_ascii'' =
     (if op \<in> {Write LineSet, Write PointCloud, Write TriangleMesh, Write VoxelGrid}
      then Some (Some (PBool False)) else None)
   \<and> map_of (params op) ''compressed'' =
     (if op \<in> {Write LineSet, Write PointCloud, Write TriangleMesh, Write VoxelGrid}
      then Some (Some (PBool False)) else None)
   \<and> map_of (params op) ''write_vertex_normals'' =
     (if op = Write TriangleMesh then Some (Some (PBool True)) else None)
   \<and> map_of (params op) ''write_vertex_colors'' =
     (if op = Write TriangleMesh then Some (Some (PBool True)) else None)"
  by (cases op rule: params.cases) simp_all

subsection \<open>A format given to the write of a triangle mesh\<close>

text \<open>
  C7, as stated (\<^verbatim>\<open>write_triangle_mesh\<close> with an explicit format that names no codec returns
  false), fails: \<^verbatim>\<open>write_triangle_mesh\<close> has no format parameter, and the call with the
  keyword \<^verbatim>\<open>format\<close> raises \<^verbatim>\<open>TypeError\<close> instead of returning false.
\<close>

theorem C7_explicit_format_counterexample:
  "fst (call (core_readers example_core) example_writers
         \<lparr>files = [''x.unknownext'' \<mapsto> [1, 2, 3]], heap = [ETriangleMesh new_TriangleMesh]\<rparr>
         (Write TriangleMesh) [PStr ''x.unknownext'', PRef 0]
         [(''format'', PStr ''unknownext'')]) = Raise TypeError
   \<and> fst (call (core_readers example_core) example_writers
         \<lparr>files = [''x.unknownext'' \<mapsto> [1, 2, 3]], heap = [ETriangleMesh new_TriangleMesh]\<rparr>
         (Write TriangleMesh) [PStr ''x.unknownext'', PRef 0]
         [(''format'', PStr ''unknownext'')]) \<noteq> Return (PBool False)"
  by (simp add: call_def)

text \<open>
  C7, amended: a call of \<^verbatim>\<open>write_triangle_mesh\<close> that passes a \<^verbatim>\<open>format\<close> keyword is rejected
  with \<^verbatim>\<open>TypeError\<close> when its arguments are bound, whatever the other arguments and whatever
  the native writer; the writer is not run, so the file system, and with it the target
  file, is as before the call.
\<close>

theorem C7_write_triangle_mesh_rejects_format:
  assumes "''format'' \<in> fst ` set kwargs"
  shows "call R W w (Write TriangleMesh) args kwargs = (Raise TypeError, w)"
proof -
  have "''format'' \<notin> fst ` set (params (Write TriangleMesh))" by simp
  with assms have "bind_args (params (Write TriangleMesh)) args kwargs = None"
    by (rule bind_args_leftover_keyword)
  then show ?thesis by (simp add: call_def)
qed

theorem C7_write_triangle_mesh_rejects_format_witness:
  "call (core_readers example_core) example_writers
     \<lparr>files = [''x.unknownext'' \<mapsto> [1, 2, 3]], heap = [ETriangleMesh new_TriangleMesh]\<rparr>
     (Write TriangleMesh) [PStr ''x.unknownext'', PRef 0] [(''format'', PStr ''unknownext'')]
   = (Raise TypeError,
      \<lparr>files = [''x.unknownext'' \<mapsto> [1, 2, 3]], heap = [ETriangleMesh new_TriangleMesh]\<rparr>)
   \<and> fst (call (core_readers example_core) example_writers
     \<lparr>files = [''x.unknownext'' \<mapsto> [1, 2, 3]], heap = [ETriangleMesh new_TriangleMesh]\<rparr>
     (Write TriangleMesh) [PStr ''x.unknownext'', PRef 0] []) = Return (PBool True)"
proof -
  have "''format'' \<in> fst ` set [(''format'', PStr ''unknownext'')]" by simp
  from C7_write_triangle_mesh_rejects_format [OF this] show ?thesis
    by (simp add: call_def py_write_triangle_mesh_def as_TriangleMesh_def return_bool_def
          write_triangle_mesh_def example_writers_def)
qed

subsection \<open>The entity given to a write\<close>

text \<open>
  C9: no \<^verbatim>\<open>write_<kind>\<close> modifies the entity it is given. Every write lambda takes the
  entity as a const reference (by value for pose graphs) and hands it to a native writer
  that takes a const reference; for every kind, every native layer and every argument
  list, the heap of entity objects after the call is the heap before it.
\<close>

theorem C9_write_leaves_entities_unchanged:
  "heap (snd (call R W w (Write k) args kwargs)) = heap w"
  by (simp add: call_def heap_invoke_write split: option.splits)

subsection \<open>The filter stage of point-cloud reads\<close>

text \<open>
  C6: the NaN/infinite filter is applied on point-cloud reads only, NaN removal first and
  infinite removal second, and a removed point takes the normal and the colour at its
  index with it.
  \<^item> In the registration table \<^verbatim>\<open>remove_nan_points\<close> and \<^verbatim>\<open>remove_infinite_points\<close> are
    parameters of \<^verbatim>\<open>read_point_cloud\<close> and of no other read or write, and the native call of
    every other kind does not depend on the two flags.
  \<^item> A call of \<^verbatim>\<open>read_point_cloud\<close> on the core returns the decoded cloud after the filter
    stage run with the two flags the caller gave, each in its place (both true when left
    out); a failed read returns the empty cloud.
  \<^item> A call of any other read on the core returns the decoded entity as it is.
  \<^item> A call of \<^verbatim>\<open>write_point_cloud\<close> hands the cloud on the heap to the native writer as it
    is, whatever the native writer.
  \<^item> For a cloud whose normal and colour sequences are as long as the point sequence or
    empty, the stage is the infinite pass after the NaN pass; it keeps exactly the points
    that no requested pass removes, in their order; the pairs of surviving points with
    their normals (colours) are exactly the original pairs whose point survives; and the
    sequences of the result are again as long as its point sequence or empty.
\<close>

theorem C6_filter_stage:
  assumes "length (normals pc) = length (points pc) \<or> normals pc = []"
      and "length (colors pc) = length (points pc) \<or> colors pc = []"
  shows "((map_of (params op) ''remove_nan_points'' \<noteq> None) = (op = Read PointCloud))
   \<and> ((map_of (params op) ''remove_infinite_points'' \<noteq> None) = (op = Read PointCloud))
   \<and> (k \<noteq> PointCloud \<longrightarrow>
        native_read R fs k filename format rn ri = native_read R fs k filename format rn' ri')
   \<and> call (core_readers c) W w (Read PointCloud)
         [PStr filename, PStr format, PBool rn, PBool ri] [] =
       (Return (PRef (length (heap w))),
        w\<lparr>heap := heap w @
          [EPointCloud
            (case decode_file (point_cloud_codecs c) (default_tag c PointCloud) (files w)
                    filename format of
               Inl err \<Rightarrow> new_PointCloud
             | Inr decoded \<Rightarrow> filter_stage rn ri decoded)]\<rparr>)
   \<and> call (core_readers c) W w (Read PointCloud) [PStr filename] [] =
       call (core_readers c) W w (Read PointCloud)
         [PStr filename, PStr ''auto'', PBool True, PBool True] []
   \<and> (k \<noteq> PointCloud \<longrightarrow>
        call (core_readers c) W w (Read k) [PStr filename] [] =
          (Return (PRef (length (heap w))),
           w\<lparr>heap := heap w @
             [case core_decode c (files w) k filename ''auto'' of
                Inl err \<Rightarrow> new_entity k
              | Inr e \<Rightarrow> e]\<rparr>))
   \<and> (r < length (heap w) \<and> heap w ! r = EPointCloud written \<longrightarrow>
        call R W w (Write PointCloud)
          [PStr filename, PRef r, PBool write_ascii, PBool compressed] [] =
          (Return (PBool (fst (WritePointCloud W (files w) filename written write_ascii
                                 compressed))),
           w\<lparr>files := snd (WritePointCloud W (files w) filename written write_ascii
                             compressed)\<rparr>))
   \<and> filter_stage rn ri pc =
       (if ri then remove_points has_inf else id)
         ((if rn then remove_points has_nan else id) pc)
   \<and> points (filter_stage rn ri pc) =
       filter (\<lambda>p. \<not> (rn \<and> has_nan p) \<and> \<not> (ri \<and> has_inf p)) (points pc)
   \<and> zip (points (filter_stage rn ri pc)) (normals (filter_stage rn ri pc)) =
       filter (\<lambda>(p, n). \<not> (rn \<and> has_nan p) \<and> \<not> (ri \<and> has_inf p))
         (zip (points pc) (normals pc))
   \<and> zip (points (filter_stage rn ri pc)) (colors (filter_stage rn ri pc)) =
       filter (\<lambda>(p, c). \<not> (rn \<and> has_nan p) \<and> \<not> (ri \<and> has_inf p))
         (zip (points pc) (colors pc))
   \<and> (length (normals (filter_stage rn ri pc)) = length (points (filter_stage rn ri pc))
        \<or> normals (filter_stage rn ri pc) = [])
   \<and> (length (colors (filter_stage rn ri pc)) = length (points (filter_stage rn ri pc))
        \<or> colors (filter_stage rn ri pc) = [])"
proof -
  have flags: "(map_of (params op) ''remove_nan_points'' \<noteq> None) = (op = Read PointCloud)"
    "(map_of (params op) ''remove_infinite_points'' \<noteq> None) = (op = Read PointCloud)"
    by (cases op rule: params.cases; simp)+
  have binding: "call (core_readers c) W w (Read PointCloud)
         [PStr filename, PStr format, PBool rn, PBool ri] [] =
       (Return (PRef (length (heap w))),
        w\<lparr>heap := heap w @
          [EPointCloud
            (case decode_file (point_cloud_codecs c) (default_tag c PointCloud) (files w)
                    filename format of
               Inl err \<Rightarrow> new_PointCloud
             | Inr decoded \<Rightarrow> filter_stage rn ri decoded)]\<rparr>)"
    by (simp add: call_read_point_cloud_full core_ReadPointCloud split: sum.splits)
  have dflt: "call (core_readers c) W w (Read PointCloud) [PStr filename] [] =
       call (core_readers c) W w (Read PointCloud)
         [PStr filename, PStr ''auto'', PBool True, PBool True] []"
    by (simp add: call_read_filename call_read_point_cloud_full)
  have others: "call (core_readers c) W w (Read k) [PStr filename] [] =
          (Return (PRef (length (heap w))),
           w\<lparr>heap := heap w @
             [case core_decode c (files w) k filename ''auto'' of
                Inl err \<Rightarrow> new_entity k
              | Inr e \<Rightarrow> e]\<rparr>)" if "k \<noteq> PointCloud"
    using that by (simp add: call_read_filename core_read_other_kinds split: sum.splits)
  have order: "filter_stage rn ri pc =
      (if ri then remove_points has_inf else id) ((if rn then remove_points has_nan else id) pc)"
    by (simp add: filter_stage_def)
  have n: "length (normals (filter_stage rn ri pc)) = length (points (filter_stage rn ri pc))
        \<or> normals (filter_stage rn ri pc) = []"
    using assms(1) aligned_filter_stage(1) absent_filter_stage(1) by blast
  have c: "length (colors (filter_stage rn ri pc)) = length (points (filter_stage rn ri pc))
        \<or> colors (filter_stage rn ri pc) = []"
    using assms(2) aligned_filter_stage(2) absent_filter_stage(2) by blast
  show ?thesis
    using flags binding dflt others order n c
      native_read_other_kinds [of k R fs filename format rn ri rn' ri']
      call_write_point_cloud [of r w written R W filename write_ascii compressed]
      points_filter_stage [of rn ri pc] normals_filter_stage [of rn ri pc]
      colors_filter_stage [of rn ri pc]
    by blast
qed

theorem C6_filter_stage_witness:
  "(length (normals \<lparr>points = [(Finite 1, Finite 2, Finite 3), (NaN, Finite 0, Finite 0),
                   (Finite 4, PosInf, Finite 0), (Finite 5, Finite 6, Finite 7)],
         normals = [(Finite 1, Finite 0, Finite 0), (Finite 0, Finite 1, Finite 0),
                    (Finite 0, Finite 0, Finite 1), (Finite 1, Finite 1, Finite 0)],
         colors = []\<rparr>) = length (points \<lparr>points = [(Finite 1, Finite 2, Finite 3), (NaN, Finite 0, Finite 0),
                   (Finite 4, PosInf, Finite 0), (Finite 5, Finite 6, Finite 7)],
         normals = [(Finite 1, Finite 0, Finite 0), (Finite 0, Finite 1, Finite 0),
                    (Finite 0, Finite 0, Finite 1), (Finite 1, Finite 1, Finite 0)],
         colors = []\<rparr>) \<or> normals \<lparr>points = [(Finite 1, Finite 2, Finite 3), (NaN, Finite 0, Finite 0),
                   (Finite 4, PosInf, Finite 0), (Finite 5, Finite 6, Finite 7)],
         normals = [(Finite 1, Finite 0, Finite 0), (Finite 0, Finite 1, Finite 0),
                    (Finite 0, Finite 0, Finite 1), (Finite 1, Finite 1, Finite 0)],
         colors = []\<rparr> = [])
   \<and> (length (colors \<lparr>points = [(Finite 1, Finite 2, Finite 3), (NaN, Finite 0, Finite 0),
                   (Finite 4, PosInf, Finite 0), (Finite 5, Finite 6, Finite 7)],
         normals = [(Finite 1, Finite 0, Finite 0), (Finite 0, Finite 1, Finite 0),
                    (Finite 0, Finite 0, Finite 1), (Finite 1, Finite 1, Finite 0)],
         colors = []\<rparr>) = length (points \<lparr>points = [(Finite 1, Finite 2, Finite 3), (NaN, Finite 0, Finite 0),
                   (Finite 4, PosInf, Finite 0), (Finite 5, Finite 6, Finite 7)],
         normals = [(Finite 1, Finite 0, Finite 0), (Finite 0, Finite 1, Finite 0),
                    (Finite 0, Finite 0, Finite 1), (Finite 1, Finite 1, Finite 0)],
         colors = []\<rparr>) \<or> colors \<lparr>points = [(Finite 1, Finite 2, Finite 3), (NaN, Finite 0, Finite 0),
                   (Finite 4, PosInf, Finite 0), (Finite 5, Finite 6, Finite 7)],
         normals = [(Finite 1, Finite 0, Finite 0), (Finite 0, Finite 1, Finite 0),
                    (Finite 0, Finite 0, Finite 1), (Finite 1, Finite 1, Finite 0)],
         colors = []\<rparr> = [])
   \<and> filter_stage True True \<lparr>points = [(Finite 1, Finite 2, Finite 3), (NaN, Finite 0, Finite 0),
                   (Finite 4, PosInf, Finite 0), (Finite 5, Finite 6, Finite 7)],
         normals = [(Finite 1, Finite 0, Finite 0), (Finite 0, Finite 1, Finite 0),
                    (Finite 0, Finite 0, Finite 1), (Finite 1, Finite 1, Finite 0)],
         colors = []\<rparr>
      = \<lparr>points = [(Finite 1, Finite 2, Finite 3), (Finite 5, Finite 6, Finite 7)],
         normals = [(Finite 1, Finite 0, Finite 0), (Finite 1, Finite 1, Finite 0)],
         colors = []\<rparr>
   \<and> call (core_readers example_core) example_writers \<lparr>files = [''scan.xyz'' \<mapsto> [1, 2, 3, 255, 0, 0, 4, 254, 0]],
          heap = [EPointCloud \<lparr>points = [(Finite 1, Finite 2, Finite 3), (NaN, Finite 0, Finite 0), (Finite 4, PosInf, Finite 0)],
                    normals = [], colors = []\<rparr>]\<rparr> (Read PointCloud)
        [PStr ''scan.xyz''] []
      = (Return (PRef 1),
         \<lparr>files = [''scan.xyz'' \<mapsto> [1, 2, 3, 255, 0, 0, 4, 254, 0]],
          heap = [EPointCloud \<lparr>points = [(Finite 1, Finite 2, Finite 3), (NaN, Finite 0, Finite 0), (Finite 4, PosInf, Finite 0)],
                    normals = [], colors = []\<rparr>]\<rparr>\<lparr>heap := heap \<lparr>files = [''scan.xyz'' \<mapsto> [1, 2, 3, 255, 0, 0, 4, 254, 0]],
          heap = [EPointCloud \<lparr>points = [(Finite 1, Finite 2, Finite 3), (NaN, Finite 0, Finite 0), (Finite 4, PosInf, Finite 0)],
                    normals = [], colors = []\<rparr>]\<rparr> @
           [EPointCloud \<lparr>points = [(Finite 1, Finite 2, Finite 3)], normals = [],
                         colors = []\<rparr>]\<rparr>)
   \<and> call (core_readers example_core) example_writers \<lparr>files = [''scan.xyz'' \<mapsto> [1, 2, 3, 255, 0, 0, 4, 254, 0]],
          heap = [EPointCloud \<lparr>points = [(Finite 1, Finite 2, Finite 3), (NaN, Finite 0, Finite 0), (Finite 4, PosInf, Finite 0)],
                    normals = [], colors = []\<rparr>]\<rparr> (Read PointCloud)
        [PStr ''scan.xyz'', PStr ''auto'', PBool True, PBool False] []
      = (Return (PRef 1),
         \<lparr>files = [''scan.xyz'' \<mapsto> [1, 2, 3, 255, 0, 0, 4, 254, 0]],
          heap = [EPointCloud \<lparr>points = [(Finite 1, Finite 2, Finite 3), (NaN, Finite 0, Finite 0), (Finite 4, PosInf, Finite 0)],
                    normals = [], colors = []\<rparr>]\<rparr>\<lparr>heap := heap \<lparr>files = [''scan.xyz'' \<mapsto> [1, 2, 3, 255, 0, 0, 4, 254, 0]],
          heap = [EPointCloud \<lparr>points = [(Finite 1, Finite 2, Finite 3), (NaN, Finite 0, Finite 0), (Finite 4, PosInf, Finite 0)],
                    normals = [], colors = []\<rparr>]\<rparr> @
           [EPointCloud \<lparr>points = [(Finite 1, Finite 2, Finite 3),
                                   (Finite 4, PosInf, Finite 0)], normals = [],
                         colors = []\<rparr>]\<rparr>)
   \<and> LineSet \<noteq> PointCloud
   \<and> call (core_readers example_core) example_writers \<lparr>files = [''scan.xyz'' \<mapsto> [1, 2, 3, 255, 0, 0, 4, 254, 0]],
          heap = [EPointCloud \<lparr>points = [(Finite 1, Finite 2, Finite 3), (NaN, Finite 0, Finite 0), (Finite 4, PosInf, Finite 0)],
                    normals = [], colors = []\<rparr>]\<rparr> (Read LineSet)
        [PStr ''scan.xyz''] []
      = (Return (PRef 1),
         \<lparr>files = [''scan.xyz'' \<mapsto> [1, 2, 3, 255, 0, 0, 4, 254, 0]],
          heap = [EPointCloud \<lparr>points = [(Finite 1, Finite 2, Finite 3), (NaN, Finite 0, Finite 0), (Finite 4, PosInf, Finite 0)],
                    normals = [], colors = []\<rparr>]\<rparr>\<lparr>heap := heap \<lparr>files = [''scan.xyz'' \<mapsto> [1, 2, 3, 255, 0, 0, 4, 254, 0]],
          heap = [EPointCloud \<lparr>points = [(Finite 1, Finite 2, Finite 3), (NaN, Finite 0, Finite 0), (Finite 4, PosInf, Finite 0)],
                    normals = [], colors = []\<rparr>]\<rparr> @
           [ELineSet \<lparr>ls_vertices = [(Finite 1, Finite 2, Finite 3), (NaN, Finite 0, Finite 0), (Finite 4, PosInf, Finite 0)], ls_lines = []\<rparr>]\<rparr>)
   \<and> 0 < length (heap \<lparr>files = [''scan.xyz'' \<mapsto> [1, 2, 3, 255, 0, 0, 4, 254, 0]],
          heap = [EPointCloud \<lparr>points = [(Finite 1, Finite 2, Finite 3), (NaN, Finite 0, Finite 0), (Finite 4, PosInf, Finite 0)],
                    normals = [], colors = []\<rparr>]\<rparr>)
   \<and> heap \<lparr>files = [''scan.xyz'' \<mapsto> [1, 2, 3, 255, 0, 0, 4, 254, 0]],
          heap = [EPointCloud \<lparr>points = [(Finite 1, Finite 2, Finite 3), (NaN, Finite 0, Finite 0), (Finite 4, PosInf, Finite 0)],
                    normals = [], colors = []\<rparr>]\<rparr> ! 0 = EPointCloud \<lparr>points = [(Finite 1, Finite 2, Finite 3), (NaN, Finite 0, Finite 0), (Finite 4, PosInf, Finite 0)], normals = [], colors = []\<rparr>
   \<and> call (core_readers example_core) example_writers \<lparr>files = [''scan.xyz'' \<mapsto> [1, 2, 3, 255, 0, 0, 4, 254, 0]],
          heap = [EPointCloud \<lparr>points = [(Finite 1, Finite 2, Finite 3), (NaN, Finite 0, Finite 0), (Finite 4, PosInf, Finite 0)],
                    normals = [], colors = []\<rparr>]\<rparr> (Write PointCloud)
        [PStr ''copy.xyz'', PRef 0, PBool False, PBool False] []
      = (Return (PBool True), \<lparr>files = [''scan.xyz'' \<mapsto> [1, 2, 3, 255, 0, 0, 4, 254, 0]],
          heap = [EPointCloud \<lparr>points = [(Finite 1, Finite 2, Finite 3), (NaN, Finite 0, Finite 0), (Finite 4, PosInf, Finite 0)],
                    normals = [], colors = []\<rparr>]\<rparr>\<lparr>files := (files \<lparr>files = [''scan.xyz'' \<mapsto> [1, 2, 3, 255, 0, 0, 4, 254, 0]],
          heap = [EPointCloud \<lparr>points = [(Finite 1, Finite 2, Finite 3), (NaN, Finite 0, Finite 0), (Finite 4, PosInf, Finite 0)],
                    normals = [], colors = []\<rparr>]\<rparr>)(''copy.xyz'' \<mapsto> [0, 0, 0])\<rparr>)"
proof -
  have h1: "length (normals \<lparr>points = [(Finite 1, Finite 2, Finite 3), (NaN, Finite 0, Finite 0),
                   (Finite 4, PosInf, Finite 0), (Finite 5, Finite 6, Finite 7)],
         normals = [(Finite 1, Finite 0, Finite 0), (Finite 0, Finite 1, Finite 0),
                    (Finite 0, Finite 0, Finite 1), (Finite 1, Finite 1, Finite 0)],
         colors = []\<rparr>) = length (points \<lparr>points = [(Finite 1, Finite 2, Finite 3), (NaN, Finite 0, Finite 0),
                   (Finite 4, PosInf, Finite 0), (Finite 5, Finite 6, Finite 7)],
         normals = [(Finite 1, Finite 0, Finite 0), (Finite 0, Finite 1, Finite 0),
                    (Finite 0, Finite 0, Finite 1), (Finite 1, Finite 1, Finite 0)],
         colors = []\<rparr>) \<or> normals \<lparr>points = [(Finite 1, Finite 2, Finite 3), (NaN, Finite 0, Finite 0),
                   (Finite 4, PosInf, Finite 0), (Finite 5, Finite 6, Finite 7)],
         normals = [(Finite 1, Finite 0, Finite 0), (Finite 0, Finite 1, Finite 0),
                    (Finite 0, Finite 0, Finite 1), (Finite 1, Finite 1, Finite 0)],
         colors = []\<rparr> = []" by simp
  have h2: "length (colors \<lparr>points = [(Finite 1, Finite 2, Finite 3), (NaN, Finite 0, Finite 0),
                   (Finite 4, PosInf, Finite 0), (Finite 5, Finite 6, Finite 7)],
         normals = [(Finite 1, Finite 0, Finite 0), (Finite 0, Finite 1, Finite 0),
                    (Finite 0, Finite 0, Finite 1), (Finite 1, Finite 1, Finite 0)],
         colors = []\<rparr>) = length (points \<lparr>points = [(Finite 1, Finite 2, Finite 3), (NaN, Finite 0, Finite 0),
                   (Finite 4, PosInf, Finite 0), (Finite 5, Finite 6, Finite 7)],
         normals = [(Finite 1, Finite 0, Finite 0), (Finite 0, Finite 1, Finite 0),
                    (Finite 0, Finite 0, Finite 1), (Finite 1, Finite 1, Finite 0)],
         colors = []\<rparr>) \<or> colors \<lparr>points = [(Finite 1, Finite 2, Finite 3), (NaN, Finite 0, Finite 0),
                   (Finite 4, PosInf, Finite 0), (Finite 5, Finite 6, Finite 7)],
         normals = [(Finite 1, Finite 0, Finite 0), (Finite 0, Finite 1, Finite 0),
                    (Finite 0, Finite 0, Finite 1), (Finite 1, Finite 1, Finite 0)],
         colors = []\<rparr> = []" by simp
  have cloud: "decode_file (point_cloud_codecs example_core)
       (default_tag example_core PointCloud) (files \<lparr>files = [''scan.xyz'' \<mapsto> [1, 2, 3, 255, 0, 0, 4, 254, 0]],
          heap = [EPointCloud \<lparr>points = [(Finite 1, Finite 2, Finite 3), (NaN, Finite 0, Finite 0), (Finite 4, PosInf, Finite 0)],
                    normals = [], colors = []\<rparr>]\<rparr>) ''scan.xyz'' ''auto''
     = Inr \<lparr>points = [(Finite 1, Finite 2, Finite 3), (NaN, Finite 0, Finite 0), (Finite 4, PosInf, Finite 0)], normals = [], colors = []\<rparr>"
    by (simp add: example_defs)
  have lines: "core_decode example_core (files \<lparr>files = [''scan.xyz'' \<mapsto> [1, 2, 3, 255, 0, 0, 4, 254, 0]],
          heap = [EPointCloud \<lparr>points = [(Finite 1, Finite 2, Finite 3), (NaN, Finite 0, Finite 0), (Finite 4, PosInf, Finite 0)],
                    normals = [], colors = []\<rparr>]\<rparr>) LineSet ''scan.xyz'' ''auto''
     = Inr (ELineSet \<lparr>ls_vertices = [(Finite 1, Finite 2, Finite 3), (NaN, Finite 0, Finite 0), (Finite 4, PosInf, Finite 0)], ls_lines = []\<rparr>)"
    by (simp add: example_defs)
  have stored: "WritePointCloud example_writers (files \<lparr>files = [''scan.xyz'' \<mapsto> [1, 2, 3, 255, 0, 0, 4, 254, 0]],
          heap = [EPointCloud \<lparr>points = [(Finite 1, Finite 2, Finite 3), (NaN, Finite 0, Finite 0), (Finite 4, PosInf, Finite 0)],
                    normals = [], colors = []\<rparr>]\<rparr>) ''copy.xyz''
       \<lparr>points = [(Finite 1, Finite 2, Finite 3), (NaN, Finite 0, Finite 0), (Finite 4, PosInf, Finite 0)], normals = [], colors = []\<rparr> False False
     = (True, (files \<lparr>files = [''scan.xyz'' \<mapsto> [1, 2, 3, 255, 0, 0, 4, 254, 0]],
          heap = [EPointCloud \<lparr>points = [(Finite 1, Finite 2, Finite 3), (NaN, Finite 0, Finite 0), (Finite 4, PosInf, Finite 0)],
                    normals = [], colors = []\<rparr>]\<rparr>)(''copy.xyz'' \<mapsto> [0, 0, 0]))"
    by (simp add: example_writers_def)
  show ?thesis
    using cloud lines stored
      C6_filter_stage [OF h1 h2, where c = example_core and W = example_writers
        and R = "core_readers example_core" and w = "\<lparr>files = [''scan.xyz'' \<mapsto> [1, 2, 3, 255, 0, 0, 4, 254, 0]],
          heap = [EPointCloud \<lparr>points = [(Finite 1, Finite 2, Finite 3), (NaN, Finite 0, Finite 0), (Finite 4, PosInf, Finite 0)],
                    normals = [], colors = []\<rparr>]\<rparr>" and filename = "''scan.xyz''"
        and format = "''auto''" and k = LineSet and rn = True and ri = True]
      C6_filter_stage [OF h1 h2, where c = example_core and W = example_writers
        and w = "\<lparr>files = [''scan.xyz'' \<mapsto> [1, 2, 3, 255, 0, 0, 4, 254, 0]],
          heap = [EPointCloud \<lparr>points = [(Finite 1, Finite 2, Finite 3), (NaN, Finite 0, Finite 0), (Finite 4, PosInf, Finite 0)],
                    normals = [], colors = []\<rparr>]\<rparr>" and filename = "''scan.xyz''"
        and format = "''auto''" and rn = True and ri = False]
      C6_filter_stage [OF h1 h2, where W = example_writers
        and w = "\<lparr>files = [''scan.xyz'' \<mapsto> [1, 2, 3, 255, 0, 0, 4, 254, 0]],
          heap = [EPointCloud \<lparr>points = [(Finite 1, Finite 2, Finite 3), (NaN, Finite 0, Finite 0), (Finite 4, PosInf, Finite 0)],
                    normals = [], colors = []\<rparr>]\<rparr>" and filename = "''copy.xyz''" and r = 0
        and written = "\<lparr>points = [(Finite 1, Finite 2, Finite 3), (NaN, Finite 0, Finite 0), (Finite 4, PosInf, Finite 0)], normals = [], colors = []\<rparr>"
        and write_ascii = False and compressed = False]
    by (simp add: remove_points_def select_def filter_stage_def)
qed

subsection \<open>What a read returns\<close>

text \<open>
  C10: every \<^verbatim>\<open>read_<kind>\<close> returns an entity, whatever the native reader reports. Called
  with a file name (and, for point clouds, also with every argument given), the call
  raises nothing and returns a new object, at the first free address of the heap, that
  holds exactly the entity the native reader left in the default-constructed instance;
  that entity is of the kind read; the reader's flag is no part of the result, so that
  two reads whose readers leave equal entities are equal calls, whether the readers
  succeeded or failed.
\<close>

theorem C10_read_returns_entity:
  "call R W w (Read k) [PStr filename] [] =
     (Return (PRef (length (heap w))),
      w\<lparr>heap := heap w @ [snd (native_read R (files w) k filename ''auto'' True True)]\<rparr>)
   \<and> call R W w (Read PointCloud) [PStr filename, PStr format, PBool rn, PBool ri] [] =
     (Return (PRef (length (heap w))),
      w\<lparr>heap := heap w @ [snd (native_read R (files w) PointCloud filename format rn ri)]\<rparr>)
   \<and> kind_of (snd (native_read R fs k filename format rn ri)) = k
   \<and> (snd (native_read R (files w) k filename ''auto'' True True) =
        snd (native_read R (files w) k filename' ''auto'' True True)
      \<longrightarrow> call R W w (Read k) [PStr filename] [] = call R W w (Read k) [PStr filename'] [])"
  by (simp add: call_read_filename call_read_point_cloud_full kind_of_native_read)

theorem C10_read_returns_entity_witness:
  "fst (native_read (core_readers example_core) [''empty.xyz'' \<mapsto> []] PointCloud
          ''/nonexistent/path.ply'' ''auto'' True True) = False
   \<and> fst (native_read (core_readers example_core) [''empty.xyz'' \<mapsto> []] PointCloud
          ''empty.xyz'' ''auto'' True True) = True
   \<and> snd (native_read (core_readers example_core) [''empty.xyz'' \<mapsto> []] PointCloud
          ''/nonexistent/path.ply'' ''auto'' True True)
     = snd (native_read (core_readers example_core) [''empty.xyz'' \<mapsto> []] PointCloud
          ''empty.xyz'' ''auto'' True True)
   \<and> call (core_readers example_core) example_writers
        \<lparr>files = [''empty.xyz'' \<mapsto> []], heap = []\<rparr> (Read PointCloud)
        [PStr ''/nonexistent/path.ply''] []
     = call (core_readers example_core) example_writers
        \<lparr>files = [''empty.xyz'' \<mapsto> []], heap = []\<rparr> (Read PointCloud)
        [PStr ''empty.xyz''] []"
proof -
  have missing: "native_read (core_readers example_core) [''empty.xyz'' \<mapsto> []] PointCloud
          ''/nonexistent/path.ply'' ''auto'' True True = (False, EPointCloud new_PointCloud)"
    by (simp add: example_defs)
  have present: "native_read (core_readers example_core) [''empty.xyz'' \<mapsto> []] PointCloud
          ''empty.xyz'' ''auto'' True True = (True, EPointCloud new_PointCloud)"
    by (simp add: example_defs)
  show ?thesis
    using missing present
      C10_read_returns_entity [where R = "core_readers example_core" and W = example_writers
        and w = "\<lparr>files = [''empty.xyz'' \<mapsto> []], heap = []\<rparr>" and k = PointCloud
        and filename = "''/nonexistent/path.ply''" and filename' = "''empty.xyz''"
        and format = "''auto''" and rn = True and ri = True and fs = Map.empty]
    by auto
qed

subsection \<open>A failed read\<close>

text \<open>
  C1, as stated (a failed read yields an empty entity together with a false success
  flag), fails: \<^verbatim>\<open>read_point_cloud\<close> on a path that does not exist, where the native reader
  reports false, returns the reference to a new empty point cloud and nothing else, the
  very outcome of the read of an existing file that holds an empty cloud, where the
  native reader reports true.
\<close>

theorem C1_missing_file_counterexample:
  "fst (ReadPointCloud (core_readers example_core) [''empty.xyz'' \<mapsto> []]
          ''/nonexistent/path.ply'' new_PointCloud ''auto'' True True) = False
   \<and> fst (ReadPointCloud (core_readers example_core) [''empty.xyz'' \<mapsto> []]
          ''empty.xyz'' new_PointCloud ''auto'' True True) = True
   \<and> call (core_readers example_core) example_writers
        \<lparr>files = [''empty.xyz'' \<mapsto> []], heap = []\<rparr> (Read PointCloud)
        [PStr ''/nonexistent/path.ply''] []
     = (Return (PRef 0),
        \<lparr>files = [''empty.xyz'' \<mapsto> []], heap = [EPointCloud new_PointCloud]\<rparr>)
   \<and> call (core_readers example_core) example_writers
        \<lparr>files = [''empty.xyz'' \<mapsto> []], heap = []\<rparr> (Read PointCloud)
        [PStr ''empty.xyz''] []
     = (Return (PRef 0),
        \<lparr>files = [''empty.xyz'' \<mapsto> []], heap = [EPointCloud new_PointCloud]\<rparr>)"
  by (simp add: call_def py_read_point_cloud_def read_point_cloud_def return_entity_def
        example_defs)

text \<open>
  C1, amended: for every kind and every file name, a failed read yields a
  default-constructed empty entity and raises nothing; the flag is not returned. On the
  core, the flag of the native reader is false exactly when decoding the file fails;
  whenever it fails, for a missing file, an unsupported format or a parse error, the call
  of \<^verbatim>\<open>read_<kind>\<close> with the file name (and, for the three kinds that have one, with a format
  given by keyword) returns a new object holding the default-constructed entity of the
  kind; and a file that does not exist fails to decode, for every kind and format.
\<close>

theorem C1_failed_read_returns_default_entity:
  "fst (native_read (core_readers c) (files w) k filename ''auto'' True True) =
     (\<not> isl (core_decode c (files w) k filename ''auto''))
   \<and> (isl (core_decode c (files w) k filename ''auto'') \<longrightarrow>
        call (core_readers c) W w (Read k) [PStr filename] [] =
          (Return (PRef (length (heap w))), w\<lparr>heap := heap w @ [new_entity k]\<rparr>))
   \<and> (k \<in> {LineSet, PointCloud, VoxelGrid} \<and> isl (core_decode c (files w) k filename format)
        \<longrightarrow>
        call (core_readers c) W w (Read k) [PStr filename] [(''format'', PStr format)] =
          (Return (PRef (length (heap w))), w\<lparr>heap := heap w @ [new_entity k]\<rparr>))
   \<and> (files w filename = None \<longrightarrow> isl (core_decode c (files w) k filename format))"
  by (simp add: core_flag core_failed_read core_failed_read_format core_decode_missing
        call_read_filename call_read_format del: insert_iff)

theorem C1_failed_read_returns_default_entity_witness:
  "files \<lparr>files = [''empty.xyz'' \<mapsto> [], ''broken.xyz'' \<mapsto> [1, 2, 3, 4]], heap = []\<rparr> ''/nonexistent/path.ply'' = None
   \<and> core_decode example_core (files \<lparr>files = [''empty.xyz'' \<mapsto> [], ''broken.xyz'' \<mapsto> [1, 2, 3, 4]], heap = []\<rparr>) PointCloud ''/nonexistent/path.ply'' ''auto''
       = Inl IOError
   \<and> call (core_readers example_core) example_writers \<lparr>files = [''empty.xyz'' \<mapsto> [], ''broken.xyz'' \<mapsto> [1, 2, 3, 4]], heap = []\<rparr> (Read PointCloud)
        [PStr ''/nonexistent/path.ply''] []
     = (Return (PRef 0), \<lparr>files = [''empty.xyz'' \<mapsto> [], ''broken.xyz'' \<mapsto> [1, 2, 3, 4]], heap = []\<rparr>\<lparr>heap := [EPointCloud new_PointCloud]\<rparr>)
   \<and> core_decode example_core (files \<lparr>files = [''empty.xyz'' \<mapsto> [], ''broken.xyz'' \<mapsto> [1, 2, 3, 4]], heap = []\<rparr>) PointCloud ''broken.xyz'' ''auto'' = Inl ParseError
   \<and> call (core_readers example_core) example_writers \<lparr>files = [''empty.xyz'' \<mapsto> [], ''broken.xyz'' \<mapsto> [1, 2, 3, 4]], heap = []\<rparr> (Read PointCloud)
        [PStr ''broken.xyz''] []
     = (Return (PRef 0), \<lparr>files = [''empty.xyz'' \<mapsto> [], ''broken.xyz'' \<mapsto> [1, 2, 3, 4]], heap = []\<rparr>\<lparr>heap := [EPointCloud new_PointCloud]\<rparr>)
   \<and> core_decode example_core (files \<lparr>files = [''empty.xyz'' \<mapsto> [], ''broken.xyz'' \<mapsto> [1, 2, 3, 4]], heap = []\<rparr>) Image ''picture.png'' ''auto''
       = Inl UnsupportedFormat
   \<and> call (core_readers example_core) example_writers \<lparr>files = [''empty.xyz'' \<mapsto> [], ''broken.xyz'' \<mapsto> [1, 2, 3, 4]], heap = []\<rparr> (Read Image)
        [PStr ''picture.png''] []
     = (Return (PRef 0), \<lparr>files = [''empty.xyz'' \<mapsto> [], ''broken.xyz'' \<mapsto> [1, 2, 3, 4]], heap = []\<rparr>\<lparr>heap := [EImage new_Image]\<rparr>)
   \<and> core_decode example_core (files \<lparr>files = [''empty.xyz'' \<mapsto> [], ''broken.xyz'' \<mapsto> [1, 2, 3, 4]], heap = []\<rparr>) PointCloud ''empty.xyz'' ''ply''
       = Inl UnsupportedFormat
   \<and> call (core_readers example_core) example_writers \<lparr>files = [''empty.xyz'' \<mapsto> [], ''broken.xyz'' \<mapsto> [1, 2, 3, 4]], heap = []\<rparr> (Read PointCloud)
        [PStr ''empty.xyz''] [(''format'', PStr ''ply'')]
     = (Return (PRef 0), \<lparr>files = [''empty.xyz'' \<mapsto> [], ''broken.xyz'' \<mapsto> [1, 2, 3, 4]], heap = []\<rparr>\<lparr>heap := [EPointCloud new_PointCloud]\<rparr>)
   \<and> fst (native_read (core_readers example_core) (files \<lparr>files = [''empty.xyz'' \<mapsto> [], ''broken.xyz'' \<mapsto> [1, 2, 3, 4]], heap = []\<rparr>) PointCloud ''empty.xyz'' ''auto''
          True True) = True"
proof -
  have missing: "core_decode example_core (files \<lparr>files = [''empty.xyz'' \<mapsto> [], ''broken.xyz'' \<mapsto> [1, 2, 3, 4]], heap = []\<rparr>) PointCloud ''/nonexistent/path.ply''
      ''auto'' = Inl IOError"
    by (simp add: example_defs)
  have broken: "core_decode example_core (files \<lparr>files = [''empty.xyz'' \<mapsto> [], ''broken.xyz'' \<mapsto> [1, 2, 3, 4]], heap = []\<rparr>) PointCloud ''broken.xyz'' ''auto''
      = Inl ParseError"
    by (simp add: example_defs)
  have unsupported: "core_decode example_core (files \<lparr>files = [''empty.xyz'' \<mapsto> [], ''broken.xyz'' \<mapsto> [1, 2, 3, 4]], heap = []\<rparr>) Image ''picture.png'' ''auto''
      = Inl UnsupportedFormat"
    by (simp add: example_defs)
  have explicit: "core_decode example_core (files \<lparr>files = [''empty.xyz'' \<mapsto> [], ''broken.xyz'' \<mapsto> [1, 2, 3, 4]], heap = []\<rparr>) PointCloud ''empty.xyz'' ''ply''
      = Inl UnsupportedFormat"
    by (simp add: example_defs)
  have present: "core_decode example_core (files \<lparr>files = [''empty.xyz'' \<mapsto> [], ''broken.xyz'' \<mapsto> [1, 2, 3, 4]], heap = []\<rparr>) PointCloud ''empty.xyz'' ''auto''
      = Inr (EPointCloud new_PointCloud)"
    by (simp add: example_defs)
  show ?thesis
    using missing broken unsupported explicit present
      C1_failed_read_returns_default_entity [where c = example_core and W = example_writers and w = "\<lparr>files = [''empty.xyz'' \<mapsto> [], ''broken.xyz'' \<mapsto> [1, 2, 3, 4]], heap = []\<rparr>" and k = PointCloud
        and filename = "''/nonexistent/path.ply''" and format = "''auto''"]
      C1_failed_read_returns_default_entity [where c = example_core and W = example_writers and w = "\<lparr>files = [''empty.xyz'' \<mapsto> [], ''broken.xyz'' \<mapsto> [1, 2, 3, 4]], heap = []\<rparr>" and k = PointCloud
        and filename = "''empty.xyz''" and format = "''ply''"]
      C1_failed_read_returns_default_entity [where c = example_core and W = example_writers and w = "\<lparr>files = [''empty.xyz'' \<mapsto> [], ''broken.xyz'' \<mapsto> [1, 2, 3, 4]], heap = []\<rparr>" and k = PointCloud
        and filename = "''broken.xyz''"]
      C1_failed_read_returns_default_entity [where c = example_core and W = example_writers and w = "\<lparr>files = [''empty.xyz'' \<mapsto> [], ''broken.xyz'' \<mapsto> [1, 2, 3, 4]], heap = []\<rparr>" and k = Image
        and filename = "''picture.png''"]
      C1_failed_read_returns_default_entity [where c = example_core and W = example_writers and w = "\<lparr>files = [''empty.xyz'' \<mapsto> [], ''broken.xyz'' \<mapsto> [1, 2, 3, 4]], heap = []\<rparr>" and k = PointCloud
        and filename = "''empty.xyz''"]
    by simp
qed

subsection \<open>The format argument of the reads\<close>

text \<open>
  C4, as stated (every \<^verbatim>\<open>read_<kind>\<close> accepts a format argument), fails: \<^verbatim>\<open>read_image\<close> has the
  single parameter \<^verbatim>\<open>filename\<close>, and a call that passes a format, by keyword or by position,
  raises \<^verbatim>\<open>TypeError\<close>.
\<close>

theorem C4_read_image_format_counterexample:
  "map_of (params (Read Image)) ''format'' = None
   \<and> call (core_readers example_core) example_writers \<lparr>files = Map.empty, heap = []\<rparr>
        (Read Image) [PStr ''picture.png''] [(''format'', PStr ''png'')]
     = (Raise TypeError, \<lparr>files = Map.empty, heap = []\<rparr>)
   \<and> call (core_readers example_core) example_writers \<lparr>files = Map.empty, heap = []\<rparr>
        (Read Image) [PStr ''picture.png'', PStr ''png''] []
     = (Raise TypeError, \<lparr>files = Map.empty, heap = []\<rparr>)"
  by (simp add: call_def)

text \<open>
  C4, amended: the reads of line sets, point clouds and voxel grids, and only these, have
  a parameter \<^verbatim>\<open>format\<close>, a string with the default \<^verbatim>\<open>auto\<close>; a format given by the caller
  is passed on to the native reader, and leaving it out is the same call as giving
  \<^verbatim>\<open>auto\<close>. The seven other reads take the file name only, and a call that passes a
  \<^verbatim>\<open>format\<close> keyword to one of them raises \<^verbatim>\<open>TypeError\<close> and changes nothing.
\<close>

theorem C4_format_parameter:
  "map_of (params (Read k)) ''format'' =
     (if k \<in> {LineSet, PointCloud, VoxelGrid} then Some (Some (PStr ''auto'')) else None)
   \<and> (k \<in> {LineSet, PointCloud, VoxelGrid} \<longrightarrow>
        call R W w (Read k) [PStr filename] [(''format'', PStr format)] =
          (Return (PRef (length (heap w))),
           w\<lparr>heap := heap w @ [snd (native_read R (files w) k filename format True True)]\<rparr>)
        \<and> call R W w (Read k) [PStr filename] [] =
            call R W w (Read k) [PStr filename] [(''format'', PStr ''auto'')])
   \<and> (k \<notin> {LineSet, PointCloud, VoxelGrid} \<longrightarrow>
        ''format'' \<in> fst ` set kwargs \<longrightarrow>
        call R W w (Read k) args kwargs = (Raise TypeError, w))"
proof -
  have rejected: "call R W w (Read k) args kwargs = (Raise TypeError, w)"
    if "k \<notin> {LineSet, PointCloud, VoxelGrid}" and kw: "''format'' \<in> fst ` set kwargs"
  proof -
    from that(1) have "''format'' \<notin> fst ` set (params (Read k))" by (cases k) simp_all
    with kw have "bind_args (params (Read k)) args kwargs = None"
      by (rule bind_args_leftover_keyword)
    then show ?thesis by (simp add: call_def)
  qed
  show ?thesis
    using rejected by (simp add: format_param call_read_format call_read_filename)
qed

theorem C4_format_parameter_witness:
  "LineSet \<in> {LineSet, PointCloud, VoxelGrid}
   \<and> call (core_readers example_core) example_writers \<lparr>files = Map.empty, heap = []\<rparr>
        (Read LineSet) [PStr ''wire.ply''] [(''format'', PStr ''ply'')]
     = (Return (PRef 0), \<lparr>files = Map.empty, heap = [ELineSet new_LineSet]\<rparr>)
   \<and> Image \<notin> {LineSet, PointCloud, VoxelGrid}
   \<and> ''format'' \<in> fst ` set [(''format'', PStr ''png'')]
   \<and> call (core_readers example_core) example_writers \<lparr>files = Map.empty, heap = []\<rparr>
        (Read Image) [PStr ''picture.png''] [(''format'', PStr ''png'')]
     = (Raise TypeError, \<lparr>files = Map.empty, heap = []\<rparr>)"
proof -
  have wire: "native_read (core_readers example_core) Map.empty LineSet ''wire.ply'' ''ply''
      True True = (False, ELineSet new_LineSet)"
    by (simp add: example_defs)
  show ?thesis
    using wire
      C4_format_parameter [where k = LineSet and R = "core_readers example_core"
        and W = example_writers and w = "\<lparr>files = Map.empty, heap = []\<rparr>"
        and filename = "''wire.ply''" and format = "''ply''"]
      C4_format_parameter [where k = Image and R = "core_readers example_core"
        and W = example_writers and w = "\<lparr>files = Map.empty, heap = []\<rparr>"
        and args = "[PStr ''picture.png'']" and kwargs = "[(''format'', PStr ''png'')]"]
    by simp
qed

end
